theory Spec2Isabelle
  imports Main
begin

section \<open>Values shared by the account model\<close>

text \<open>
  The development embeds \<^verbatim>\<open>src/server_manager/web_app/gcp_account.ts\<close>. Its
  collaborators (\<^verbatim>\<open>gcp_api.RestApiClient\<close>, \<^verbatim>\<open>sleep\<close>, \<^verbatim>\<open>gcp.getRegionId\<close>,
  the install \<^verbatim>\<open>SCRIPT\<close>) are imported from modules outside the embedded file, so
  they appear as parameters.
\<close>

datatype error =
    ApiError string   \<comment> \<open>a rejected call of the REST client\<close>
  | TypeError string  \<comment> \<open>the JavaScript runtime error of reading a property of undefined\<close>

subsection \<open>The instance name\<close>

text \<open>
  What the getters of a JavaScript \<^verbatim>\<open>Date\<close> return: \<^verbatim>\<open>getMonth\<close> counts from 0
  (January) to 11, \<^verbatim>\<open>getDate\<close> from 1 to 31; the \<^verbatim>\<open>getUTC...\<close> getters read the
  same instant in UTC.
\<close>

record js_date =
  getFullYear :: nat
  getMonth :: nat
  getDate :: nat
  getUTCHours :: nat
  getUTCMinutes :: nat
  getUTCSeconds :: nat
  getUTCMilliseconds :: nat

text \<open>A number inside a template literal: its decimal digits, with no padding.\<close>

fun decimal :: "nat \<Rightarrow> string" where
  "decimal n =
     (if n < 10 then [char_of (48 + n)]
      else decimal (n div 10) @ [char_of (48 + n mod 10)])"

declare decimal.simps [simp del]

definition makeInstanceName :: "js_date \<Rightarrow> string" where
  "makeInstanceName now =
     ''outline-'' @ decimal (getFullYear now) @ decimal (getMonth now) @ decimal (getDate now)
       @ ''-'' @ decimal (getUTCHours now) @ decimal (getUTCMinutes now)
       @ decimal (getUTCSeconds now)"

text \<open>
  The format the documentation of the name asks for, \<^verbatim>\<open>outline-YYYYMMDD-HHMMSS\<close>:
  the calendar month (one more than \<^verbatim>\<open>getMonth\<close>), every field padded with zeros to
  its width.
\<close>

definition pad :: "nat \<Rightarrow> nat \<Rightarrow> string" where
  "pad width n = replicate (width - length (decimal n)) CHR ''0'' @ decimal n"

definition padded_instance_name :: "js_date \<Rightarrow> string" where
  "padded_instance_name now =
     ''outline-'' @ pad 4 (getFullYear now) @ pad 2 (getMonth now + 1) @ pad 2 (getDate now)
       @ ''-'' @ pad 2 (getUTCHours now) @ pad 2 (getUTCMinutes now)
       @ pad 2 (getUTCSeconds now)"

text \<open>5 March 2021, 07:08:09.000 UTC, read in a UTC time zone.\<close>

definition march_5 :: js_date where
  "march_5 = \<lparr>getFullYear = 2021, getMonth = 2, getDate = 5, getUTCHours = 7,
     getUTCMinutes = 8, getUTCSeconds = 9, getUTCMilliseconds = 0\<rparr>"

subsection \<open>What the REST client returns\<close>

text \<open>
  The types of \<^verbatim>\<open>gcp_api\<close> are declared outside the embedded file; the records below
  hold the fields that the account code reads or writes. A boolean that is absent in
  the JSON is falsy in JavaScript and is \<open>False\<close> here; a list that is absent and is
  indexed (\<^verbatim>\<open>accessConfigs[0]\<close>) throws like the empty list and is \<open>[]\<close> here.
  \<open>op_error\<close> holds the errors of an operation that carries an error.
\<close>

record operation =
  op_name :: string
  op_done :: bool
  op_error :: "string list option"
  op_targetId :: string

record zone =
  zone_name :: string
  zone_region :: string
  zone_status :: string

record list_zones_response =
  zones_items :: "zone list option"

record project_billing_info =
  billingEnabled :: bool

record service_config =
  config_name :: string

record service =
  config :: service_config

record list_enabled_services_response =
  services :: "service list option"

record firewall =
  firewall_name :: string

record list_firewalls_response =
  firewalls_items :: "firewall list option"

record access_config =
  natIP :: "string option"

record network_interface =
  accessConfigs :: "access_config list"

record gce_instance =
  instance_name :: string
  instance_description :: string
  networkInterfaces :: "network_interface list"

record locator =
  loc_projectId :: string
  loc_zoneId :: string
  loc_instanceId :: string

subsection \<open>What the account sends\<close>

record create_project_data =
  cp_projectId :: string
  cp_name :: string
  cp_labels :: "(string \<times> string) list"

record update_billing_data =
  ub_name :: string
  ub_projectId :: string
  ub_billingAccountName :: string

record enable_services_data =
  serviceIds :: "string list"

record create_firewall_data =
  cf_name :: string
  cf_direction :: string
  cf_priority :: nat
  cf_targetTags :: "string list"
  cf_allowed :: "string list"  \<comment> \<open>the \<^verbatim>\<open>IPProtocol\<close> of each entry\<close>
  cf_sourceRanges :: "string list"

record disk =
  disk_boot :: bool
  disk_sourceImage :: string

record network_interface_request =
  nir_network :: string
  nir_accessConfigs :: nat  \<comment> \<open>the number of empty access configurations\<close>

record create_instance_data =
  ci_name :: string
  ci_description :: string
  ci_machineType :: string
  ci_disks :: "disk list"
  ci_networkInterfaces :: "network_interface_request list"
  ci_labels :: "(string \<times> string) list"
  ci_tags :: "string list"
  ci_metadata :: "(string \<times> string) list"

record static_ip_data =
  sip_name :: string
  sip_description :: string
  sip_address :: "string option"

record project =
  project_id :: string
  project_name :: string

subsection \<open>The environment and the trace of calls\<close>

text \<open>
  The provider is a state machine of any state type \<open>'p\<close>: every method of the REST
  client takes the provider's state and returns its answer, a rejection (\<open>Inl\<close>) or a
  response (\<open>Inr\<close>), with the next state. \<open>sleep_for\<close> is what the provider does
  while the account sleeps.
\<close>

record 'p env =
  api_listZones :: "string \<Rightarrow> 'p \<Rightarrow> (error + list_zones_response) \<times> 'p"
  api_createProject :: "string \<Rightarrow> create_project_data \<Rightarrow> 'p \<Rightarrow> (error + operation) \<times> 'p"
  api_resourceManagerOperationGet :: "string \<Rightarrow> 'p \<Rightarrow> (error + operation) \<times> 'p"
  api_updateProjectBillingInfo ::
    "string \<Rightarrow> update_billing_data \<Rightarrow> 'p \<Rightarrow> (error + project_billing_info) \<times> 'p"
  api_enableServices :: "string \<Rightarrow> enable_services_data \<Rightarrow> 'p \<Rightarrow> (error + operation) \<times> 'p"
  api_serviceUsageOperationGet :: "string \<Rightarrow> 'p \<Rightarrow> (error + operation) \<times> 'p"
  api_getProjectBillingInfo :: "string \<Rightarrow> 'p \<Rightarrow> (error + project_billing_info) \<times> 'p"
  api_listEnabledServices ::
    "string \<Rightarrow> 'p \<Rightarrow> (error + list_enabled_services_response) \<times> 'p"
  api_listFirewalls ::
    "string \<Rightarrow> string \<Rightarrow> 'p \<Rightarrow> (error + list_firewalls_response option) \<times> 'p"
  api_createFirewall :: "string \<Rightarrow> create_firewall_data \<Rightarrow> 'p \<Rightarrow> (error + operation) \<times> 'p"
  api_createInstance ::
    "string \<Rightarrow> string \<Rightarrow> create_instance_data \<Rightarrow> 'p \<Rightarrow> (error + operation) \<times> 'p"
  api_computeEngineOperationZoneWait ::
    "string \<Rightarrow> string \<Rightarrow> string \<Rightarrow> 'p \<Rightarrow> (error + operation) \<times> 'p"
  api_getInstance :: "locator \<Rightarrow> 'p \<Rightarrow> (error + gce_instance) \<times> 'p"
  api_createStaticIp :: "string \<Rightarrow> string \<Rightarrow> static_ip_data \<Rightarrow> 'p \<Rightarrow> (error + operation) \<times> 'p"
  sleep_for :: "nat \<Rightarrow> 'p \<Rightarrow> 'p"
  getRegionId :: "string \<Rightarrow> string"
  SCRIPT :: string

text \<open>One event per answered call, with the arguments sent and the answer received.\<close>

datatype event =
    ListZones string "error + list_zones_response"
  | CreateProject string create_project_data "error + operation"
  | ResourceManagerOperationGet string "error + operation"
  | UpdateProjectBillingInfo string update_billing_data "error + project_billing_info"
  | EnableServices string enable_services_data "error + operation"
  | ServiceUsageOperationGet string "error + operation"
  | GetProjectBillingInfo string "error + project_billing_info"
  | ListEnabledServices string "error + list_enabled_services_response"
  | ListFirewalls string string "error + list_firewalls_response option"
  | CreateFirewall string create_firewall_data "error + operation"
  | CreateInstance string string create_instance_data "error + operation"
  | ComputeEngineOperationZoneWait string string string "error + operation"
  | GetInstance locator "error + gce_instance"
  | CreateStaticIp string string static_ip_data "error + operation"
  | Sleep nat

record 'p world =
  provider :: 'p
  trace :: "event list"

definition perform ::
  "('p \<Rightarrow> 'r \<times> 'p) \<Rightarrow> ('r \<Rightarrow> event) \<Rightarrow> 'p world \<Rightarrow> 'r \<times> 'p world" where
  "perform call ev w =
     (let (r, p') = call (provider w)
      in (r, \<lparr>provider = p', trace = trace w @ [ev r]\<rparr>))"

definition sleep :: "'p env \<Rightarrow> nat \<Rightarrow> 'p world \<Rightarrow> 'p world" where
  "sleep env ms w = \<lparr>provider = sleep_for env ms (provider w), trace = trace w @ [Sleep ms]\<rparr>"

subsection \<open>Constants of the account\<close>

definition OUTLINE_PROJECT_NAME :: string where
  "OUTLINE_PROJECT_NAME = ''Outline servers''"

definition OUTLINE_FIREWALL_NAME :: string where
  "OUTLINE_FIREWALL_NAME = ''outline''"

definition OUTLINE_FIREWALL_TAG :: string where
  "OUTLINE_FIREWALL_TAG = ''outline''"

definition MACHINE_SIZE :: string where
  "MACHINE_SIZE = ''f1-micro''"

definition REQUIRED_GCP_SERVICES :: "string list" where
  "REQUIRED_GCP_SERVICES = [''compute.googleapis.com'']"

subsection \<open>listLocations\<close>

text \<open>\<^verbatim>\<open>s.lastIndexOf(c)\<close>: the last position of \<open>c\<close> in \<open>s\<close>, or \<open>-1\<close>.\<close>

fun lastIndexOf :: "string \<Rightarrow> char \<Rightarrow> int" where
  "lastIndexOf [] c = - 1"
| "lastIndexOf (x # xs) c =
     (let i = lastIndexOf xs c
      in if 0 \<le> i then i + 1 else if x = c then 0 else - 1)"

definition substring :: "string \<Rightarrow> int \<Rightarrow> string" where
  "substring s start = drop (nat start) s"

text \<open>
  The result starts as the object literal \<^verbatim>\<open>{}\<close>: the map holds its own properties,
  and \<^verbatim>\<open>key in result\<close> is also true of the property names that every object
  inherits from \<^verbatim>\<open>Object.prototype\<close>. Under such a name \<^verbatim>\<open>result[key]\<close> is the
  inherited member, which has no \<^verbatim>\<open>push\<close>.
\<close>

type_synonym zone_map = "string \<rightharpoonup> string list"

definition OBJECT_PROTOTYPE_KEYS :: "string list" where
  "OBJECT_PROTOTYPE_KEYS =
     [''constructor'', ''hasOwnProperty'', ''isPrototypeOf'', ''propertyIsEnumerable'',
      ''toLocaleString'', ''toString'', ''valueOf'', ''__proto__'', ''__defineGetter__'',
      ''__defineSetter__'', ''__lookupGetter__'', ''__lookupSetter__'']"

abbreviation regionOf :: "zone \<Rightarrow> string" where
  "regionOf zone \<equiv> substring (zone_region zone) (lastIndexOf (zone_region zone) CHR ''/'' + 1)"

definition addZone :: "zone_map \<Rightarrow> zone \<Rightarrow> error + zone_map" where
  "addZone result zone =
     (let region = regionOf zone;
          result1 =
            (if \<not> (region \<in> dom result \<or> region \<in> set OBJECT_PROTOTYPE_KEYS)
             then result(region \<mapsto> []) else result)
      in if zone_status zone = ''UP'' then
           (case result1 region of
              None \<Rightarrow> Inl (TypeError ''result[region].push is not a function'')
            | Some names \<Rightarrow> Inr (result1(region \<mapsto> names @ [zone_name zone])))
         else Inr result1)"

fun addZones :: "zone_map \<Rightarrow> zone list \<Rightarrow> error + zone_map" where
  "addZones result [] = Inr result"
| "addZones result (zone # zones) =
     (case addZone result zone of
        Inl e \<Rightarrow> Inl e
      | Inr result' \<Rightarrow> addZones result' zones)"

definition listLocations :: "'p env \<Rightarrow> string \<Rightarrow> 'p world \<Rightarrow> (error + zone_map) \<times> 'p world" where
  "listLocations env projectId w =
     (let (r, w1) = perform (api_listZones env projectId) (ListZones projectId) w
      in case r of
           Inl e \<Rightarrow> (Inl e, w1)
         | Inr listZonesResponse \<Rightarrow>
             (let zones = (case zones_items listZonesResponse of None \<Rightarrow> [] | Some items \<Rightarrow> items)
              in (addZones Map.empty zones, w1)))"

subsection \<open>isProjectHealthy\<close>

text \<open>
  The loop over the required services. \<^verbatim>\<open>listEnabledServicesResponse.services.find\<close> is
  called on the field as it is: on an answer without the field it throws.
\<close>

fun requiredServicesFound :: "service list option \<Rightarrow> string list \<Rightarrow> error + bool" where
  "requiredServicesFound enabledServices [] = Inr True"
| "requiredServicesFound enabledServices (requiredService # rest) =
     (case enabledServices of
        None \<Rightarrow> Inl (TypeError ''listEnabledServicesResponse.services is undefined'')
      | Some enabled \<Rightarrow>
          (case find (\<lambda>service. config_name (config service) = requiredService) enabled of
             None \<Rightarrow> Inr False
           | Some found \<Rightarrow> requiredServicesFound enabledServices rest))"

definition isProjectHealthy :: "'p env \<Rightarrow> string \<Rightarrow> 'p world \<Rightarrow> (error + bool) \<times> 'p world" where
  "isProjectHealthy env projectId w =
     (let (r, w1) =
            perform (api_getProjectBillingInfo env projectId) (GetProjectBillingInfo projectId) w
      in case r of
           Inl e \<Rightarrow> (Inl e, w1)
         | Inr projectBillingInfo \<Rightarrow>
             if \<not> billingEnabled projectBillingInfo then (Inr False, w1)
             else
               (let (r2, w2) =
                      perform (api_listEnabledServices env projectId)
                        (ListEnabledServices projectId) w1
                in case r2 of
                     Inl e \<Rightarrow> (Inl e, w2)
                   | Inr listEnabledServicesResponse \<Rightarrow>
                       (requiredServicesFound (services listEnabledServicesResponse)
                          REQUIRED_GCP_SERVICES, w2)))"

subsection \<open>configureProject, repairProject and createProject\<close>

text \<open>
  The polling loops \<^verbatim>\<open>while (!operation?.done) { await sleep(2 * 1000); operation =
  await get(name); }\<close> start from \<^verbatim>\<open>null\<close>; a loop that polls forever has no result
  (\<open>None\<close>).
\<close>

definition done_of :: "operation option \<Rightarrow> bool" where
  "done_of operation = (case operation of None \<Rightarrow> False | Some op \<Rightarrow> op_done op)"

partial_function (option) enableServicesLoop ::
  "'p env \<Rightarrow> string \<Rightarrow> operation option \<Rightarrow> 'p world
     \<Rightarrow> ((error + operation option) \<times> 'p world) option" where
  "enableServicesLoop env name enableServicesOperation w =
     (if \<not> done_of enableServicesOperation then
        (let w1 = sleep env (2 * 1000) w;
             (r, w2) =
               perform (api_serviceUsageOperationGet env name) (ServiceUsageOperationGet name) w1
         in case r of
              Inl e \<Rightarrow> Some (Inl e, w2)
            | Inr operation \<Rightarrow> enableServicesLoop env name (Some operation) w2)
      else Some (Inr enableServicesOperation, w))"

declare enableServicesLoop.simps [code]

definition configureProject ::
  "'p env \<Rightarrow> string \<Rightarrow> string \<Rightarrow> 'p world \<Rightarrow> ((error + unit) \<times> 'p world) option" where
  "configureProject env projectId billingAccountId w =
     (let updateProjectBillingInfoData =
            \<lparr>ub_name = ''projects/'' @ projectId @ ''/billingInfo'',
             ub_projectId = projectId,
             ub_billingAccountName = ''billingAccounts/'' @ billingAccountId\<rparr>;
          (r, w1) =
            perform (api_updateProjectBillingInfo env projectId updateProjectBillingInfoData)
              (UpdateProjectBillingInfo projectId updateProjectBillingInfoData) w
      in case r of
           Inl e \<Rightarrow> Some (Inl e, w1)
         | Inr _ \<Rightarrow>
             (let enableServicesData = \<lparr>serviceIds = REQUIRED_GCP_SERVICES\<rparr>;
                  (r2, w2) =
                    perform (api_enableServices env projectId enableServicesData)
                      (EnableServices projectId enableServicesData) w1
              in case r2 of
                   Inl e \<Rightarrow> Some (Inl e, w2)
                 | Inr enableServicesResponse \<Rightarrow>
                     (case enableServicesLoop env (op_name enableServicesResponse) None w2 of
                        None \<Rightarrow> None
                      | Some (Inl e, w3) \<Rightarrow> Some (Inl e, w3)
                      | Some (Inr enableServicesOperation, w3) \<Rightarrow>
                          \<comment> \<open>the branch of \<^verbatim>\<open>enableServicesResponse.error\<close> is empty\<close>
                          (if op_error enableServicesResponse \<noteq> None
                           then Some (Inr (), w3)
                           else Some (Inr (), w3)))))"

definition repairProject ::
  "'p env \<Rightarrow> string \<Rightarrow> string \<Rightarrow> 'p world \<Rightarrow> ((error + unit) \<times> 'p world) option" where
  "repairProject env projectId billingAccountId w =
     configureProject env projectId billingAccountId w"

partial_function (option) createProjectLoop ::
  "'p env \<Rightarrow> string \<Rightarrow> operation option \<Rightarrow> 'p world
     \<Rightarrow> ((error + operation option) \<times> 'p world) option" where
  "createProjectLoop env name createProjectOperation w =
     (if \<not> done_of createProjectOperation then
        (let w1 = sleep env (2 * 1000) w;
             (r, w2) =
               perform (api_resourceManagerOperationGet env name)
                 (ResourceManagerOperationGet name) w1
         in case r of
              Inl e \<Rightarrow> Some (Inl e, w2)
            | Inr operation \<Rightarrow> createProjectLoop env name (Some operation) w2)
      else Some (Inr createProjectOperation, w))"

declare createProjectLoop.simps [code]

definition createProject ::
  "'p env \<Rightarrow> string \<Rightarrow> string \<Rightarrow> 'p world \<Rightarrow> ((error + project) \<times> 'p world) option" where
  "createProject env projectId billingAccountId w =
     (let createProjectData =
            \<lparr>cp_projectId = projectId, cp_name = OUTLINE_PROJECT_NAME,
             cp_labels = [(''outline'', ''true'')]\<rparr>;
          (r, w1) =
            perform (api_createProject env projectId createProjectData)
              (CreateProject projectId createProjectData) w
      in case r of
           Inl e \<Rightarrow> Some (Inl e, w1)
         | Inr createProjectResponse \<Rightarrow>
             (case createProjectLoop env (op_name createProjectResponse) None w1 of
                None \<Rightarrow> None
              | Some (Inl e, w2) \<Rightarrow> Some (Inl e, w2)
              | Some (Inr createProjectOperation, w2) \<Rightarrow>
                  \<comment> \<open>the branch of \<^verbatim>\<open>createProjectOperation.error\<close> is empty\<close>
                  (case configureProject env projectId billingAccountId w2 of
                     None \<Rightarrow> None
                   | Some (Inl e, w3) \<Rightarrow> Some (Inl e, w3)
                   | Some (Inr _, w3) \<Rightarrow>
                       Some (Inr \<lparr>project_id = projectId, project_name = OUTLINE_PROJECT_NAME\<rparr>,
                             w3))))"

subsection \<open>Asynchronous continuations\<close>

text \<open>
  \<^verbatim>\<open>createInstance\<close> does not await the promises it starts, so the code that runs
  after it returns is a value: a task is settled, or it waits for the answer to one
  call and continues with it. No function of the file catches an exception, so a
  rejected call rejects the task that awaits it.
\<close>

datatype 'a task =
    Resolved 'a
  | Rejected error
  | AwaitZoneWait string string string "operation \<Rightarrow> 'a task"
  | AwaitGetInstance locator "gce_instance \<Rightarrow> 'a task"
  | AwaitCreateStaticIp string string static_ip_data "operation \<Rightarrow> 'a task"
  | AwaitListFirewalls string string "list_firewalls_response option \<Rightarrow> 'a task"
  | AwaitCreateFirewall string create_firewall_data "operation \<Rightarrow> 'a task"

text \<open>\<^verbatim>\<open>promise.then(f)\<close>.\<close>

primrec then_task :: "'a task \<Rightarrow> ('a \<Rightarrow> 'b task) \<Rightarrow> 'b task" where
  "then_task (Resolved x) f = f x"
| "then_task (Rejected e) f = Rejected e"
| "then_task (AwaitZoneWait projectId zoneId name k) f =
     AwaitZoneWait projectId zoneId name (\<lambda>r. then_task (k r) f)"
| "then_task (AwaitGetInstance loc k) f = AwaitGetInstance loc (\<lambda>r. then_task (k r) f)"
| "then_task (AwaitCreateStaticIp projectId regionId data k) f =
     AwaitCreateStaticIp projectId regionId data (\<lambda>r. then_task (k r) f)"
| "then_task (AwaitListFirewalls projectId name k) f =
     AwaitListFirewalls projectId name (\<lambda>r. then_task (k r) f)"
| "then_task (AwaitCreateFirewall projectId data k) f =
     AwaitCreateFirewall projectId data (\<lambda>r. then_task (k r) f)"

definition resume :: "error + 'r \<Rightarrow> ('r \<Rightarrow> 'a task) \<Rightarrow> 'a task" where
  "resume r k = (case r of Inl e \<Rightarrow> Rejected e | Inr x \<Rightarrow> k x)"

text \<open>The answer to the call a task waits for arrives: the task runs to its next call.\<close>

primrec step :: "'p env \<Rightarrow> 'a task \<Rightarrow> 'p world \<Rightarrow> 'a task \<times> 'p world" where
  "step env (Resolved x) w = (Resolved x, w)"
| "step env (Rejected e) w = (Rejected e, w)"
| "step env (AwaitZoneWait projectId zoneId name k) w =
     (let (r, w') =
            perform (api_computeEngineOperationZoneWait env projectId zoneId name)
              (ComputeEngineOperationZoneWait projectId zoneId name) w
      in (resume r k, w'))"
| "step env (AwaitGetInstance loc k) w =
     (let (r, w') = perform (api_getInstance env loc) (GetInstance loc) w
      in (resume r k, w'))"
| "step env (AwaitCreateStaticIp projectId regionId data k) w =
     (let (r, w') =
            perform (api_createStaticIp env projectId regionId data)
              (CreateStaticIp projectId regionId data) w
      in (resume r k, w'))"
| "step env (AwaitListFirewalls projectId name k) w =
     (let (r, w') = perform (api_listFirewalls env projectId name) (ListFirewalls projectId name) w
      in (resume r k, w'))"
| "step env (AwaitCreateFirewall projectId data k) w =
     (let (r, w') =
            perform (api_createFirewall env projectId data) (CreateFirewall projectId data) w
      in (resume r k, w'))"

text \<open>A task that is awaited alone: it runs until it is settled.\<close>

primrec run_task :: "'p env \<Rightarrow> 'a task \<Rightarrow> 'p world \<Rightarrow> (error + 'a) \<times> 'p world" where
  "run_task env (Resolved x) w = (Inr x, w)"
| "run_task env (Rejected e) w = (Inl e, w)"
| "run_task env (AwaitZoneWait projectId zoneId name k) w =
     (let (r, w') =
            perform (api_computeEngineOperationZoneWait env projectId zoneId name)
              (ComputeEngineOperationZoneWait projectId zoneId name) w
      in case r of Inl e \<Rightarrow> (Inl e, w') | Inr x \<Rightarrow> run_task env (k x) w')"
| "run_task env (AwaitGetInstance loc k) w =
     (let (r, w') = perform (api_getInstance env loc) (GetInstance loc) w
      in case r of Inl e \<Rightarrow> (Inl e, w') | Inr x \<Rightarrow> run_task env (k x) w')"
| "run_task env (AwaitCreateStaticIp projectId regionId data k) w =
     (let (r, w') =
            perform (api_createStaticIp env projectId regionId data)
              (CreateStaticIp projectId regionId data) w
      in case r of Inl e \<Rightarrow> (Inl e, w') | Inr x \<Rightarrow> run_task env (k x) w')"
| "run_task env (AwaitListFirewalls projectId name k) w =
     (let (r, w') = perform (api_listFirewalls env projectId name) (ListFirewalls projectId name) w
      in case r of Inl e \<Rightarrow> (Inl e, w') | Inr x \<Rightarrow> run_task env (k x) w')"
| "run_task env (AwaitCreateFirewall projectId data k) w =
     (let (r, w') =
            perform (api_createFirewall env projectId data) (CreateFirewall projectId data) w
      in case r of Inl e \<Rightarrow> (Inl e, w') | Inr x \<Rightarrow> run_task env (k x) w')"

definition settled :: "'a task \<Rightarrow> bool" where
  "settled t = (case t of Resolved _ \<Rightarrow> True | Rejected _ \<Rightarrow> True | _ \<Rightarrow> False)"

text \<open>
  \<^verbatim>\<open>Promise.all([a, b]).then()\<close>: the two tasks and the outcome of the joined promise,
  which is settled once, by the first rejection or by the second fulfilment.
\<close>

record completion =
  ipPromotion :: "unit task"
  firewallSetup :: "unit task"
  outcome :: "(error + unit) option"

definition join :: "unit task \<Rightarrow> unit task \<Rightarrow> unit task \<Rightarrow> (error + unit) option" where
  "join moved a b =
     (case moved of
        Rejected e \<Rightarrow> Some (Inl e)
      | _ \<Rightarrow>
          (case (a, b) of
             (Resolved _, Resolved _) \<Rightarrow> Some (Inr ())
           | _ \<Rightarrow> None))"

definition promise_all :: "unit task \<Rightarrow> unit task \<Rightarrow> completion" where
  "promise_all a b =
     \<lparr>ipPromotion = a, firewallSetup = b,
      outcome = (case join a a b of Some r \<Rightarrow> Some r | None \<Rightarrow> join b a b)\<rparr>"

text \<open>
  The two tasks wait for their answers at the same time; which answer arrives next is
  the scheduler's choice.
\<close>

datatype side = IpPromotion | FirewallSetup

definition advance :: "'p env \<Rightarrow> side \<Rightarrow> completion \<Rightarrow> 'p world \<Rightarrow> completion \<times> 'p world" where
  "advance env s c w =
     (case s of
        IpPromotion \<Rightarrow>
          (if settled (ipPromotion c) then (c, w)
           else
             (let (a', w') = step env (ipPromotion c) w
              in (\<lparr>ipPromotion = a', firewallSetup = firewallSetup c,
                   outcome = (case outcome c of
                                Some r \<Rightarrow> Some r
                              | None \<Rightarrow> join a' a' (firewallSetup c))\<rparr>, w')))
      | FirewallSetup \<Rightarrow>
          (if settled (firewallSetup c) then (c, w)
           else
             (let (b', w') = step env (firewallSetup c) w
              in (\<lparr>ipPromotion = ipPromotion c, firewallSetup = b',
                   outcome = (case outcome c of
                                Some r \<Rightarrow> Some r
                              | None \<Rightarrow> join b' (ipPromotion c) b')\<rparr>, w'))))"

fun run_completion ::
  "'p env \<Rightarrow> side list \<Rightarrow> completion \<Rightarrow> 'p world \<Rightarrow> completion \<times> 'p world" where
  "run_completion env [] c w = (c, w)"
| "run_completion env (s # schedule) c w =
     (let (c', w') = advance env s c w in run_completion env schedule c' w')"

subsection \<open>createFirewallIfNeeded, promoteEphemeralIpIfNeeded, createInstance, createServer\<close>

definition createFirewallIfNeeded :: "string \<Rightarrow> unit task" where
  "createFirewallIfNeeded projectId =
     AwaitListFirewalls projectId OUTLINE_FIREWALL_NAME (\<lambda>getFirewallResponse.
       if (case getFirewallResponse of
             None \<Rightarrow> True
           | Some response \<Rightarrow>
               (case firewalls_items response of None \<Rightarrow> True | Some items \<Rightarrow> length items = 0))
       then
         (let createFirewallData =
                \<lparr>cf_name = OUTLINE_FIREWALL_NAME, cf_direction = ''INGRESS'', cf_priority = 1000,
                 cf_targetTags = [OUTLINE_FIREWALL_TAG], cf_allowed = [''all''],
                 cf_sourceRanges = [''0.0.0.0/0'']\<rparr>
          in AwaitCreateFirewall projectId createFirewallData (\<lambda>createFirewallOperation.
               \<comment> \<open>the branch of \<^verbatim>\<open>createFirewallOperation.error?.errors\<close> is empty\<close>
               if op_error createFirewallOperation \<noteq> None then Resolved () else Resolved ()))
       else Resolved ())"

definition promoteEphemeralIpIfNeeded :: "'p env \<Rightarrow> locator \<Rightarrow> unit task" where
  "promoteEphemeralIpIfNeeded env loc =
     AwaitGetInstance loc (\<lambda>instance.
       case networkInterfaces instance of
         [] \<Rightarrow> Rejected (TypeError ''networkInterfaces[0] is undefined'')
       | networkInterface # _ \<Rightarrow>
           (case accessConfigs networkInterface of
              [] \<Rightarrow> Rejected (TypeError ''accessConfigs[0] is undefined'')
            | accessConfig # _ \<Rightarrow>
                (let ipAddress = natIP accessConfig;
                     createStaticIpData =
                       \<lparr>sip_name = instance_name instance,
                        sip_description = instance_description instance,
                        sip_address = ipAddress\<rparr>
                 in AwaitCreateStaticIp (loc_projectId loc) (getRegionId env (loc_zoneId loc))
                      createStaticIpData (\<lambda>createStaticIpOperation.
                        \<comment> \<open>the branch of \<^verbatim>\<open>createStaticIpOperation.error?.errors\<close> is empty\<close>
                        if op_error createStaticIpOperation \<noteq> None
                        then Resolved () else Resolved ()))))"

definition getInstallScript :: "'p env \<Rightarrow> string" where
  "getInstallScript env = ''#!/bin/bash -eu'' @ [CHR 0x0A] @ SCRIPT env"

record instance_handle =
  ih_instanceId :: string
  ih_name :: string
  ih_completion :: completion

definition createInstance ::
  "'p env \<Rightarrow> js_date \<Rightarrow> string \<Rightarrow> string \<Rightarrow> string \<Rightarrow> 'p world
     \<Rightarrow> (error + instance_handle) \<times> 'p world" where
  "createInstance env now projectId description zoneId w =
     (let name = makeInstanceName now;
          createInstanceData =
            \<lparr>ci_name = name,
             ci_description = description,
             ci_machineType = ''zones/'' @ zoneId @ ''/machineTypes/'' @ MACHINE_SIZE,
             ci_disks =
               [\<lparr>disk_boot = True,
                 disk_sourceImage =
                   ''projects/ubuntu-os-cloud/global/images/family/ubuntu-1804-lts''\<rparr>],
             ci_networkInterfaces =
               [\<lparr>nir_network = ''global/networks/default'', nir_accessConfigs = 1\<rparr>],
             ci_labels = [(''outline'', ''true'')],
             ci_tags = [OUTLINE_FIREWALL_TAG],
             ci_metadata =
               [(''enable-guest-attributes'', ''TRUE''), (''user-data'', getInstallScript env)]\<rparr>;
          (r, w') =
            perform (api_createInstance env projectId zoneId createInstanceData)
              (CreateInstance projectId zoneId createInstanceData) w
      in case r of
           Inl e \<Rightarrow> (Inl e, w')
         | Inr operation \<Rightarrow>
             (let instanceId = op_targetId operation;
                  completion =
                    promise_all
                      (then_task (AwaitZoneWait projectId zoneId (op_name operation) Resolved)
                         (\<lambda>_. promoteEphemeralIpIfNeeded env
                                 \<lparr>loc_projectId = projectId, loc_zoneId = zoneId,
                                  loc_instanceId = instanceId\<rparr>))
                      (createFirewallIfNeeded projectId)
              in (Inr \<lparr>ih_instanceId = instanceId, ih_name = name, ih_completion = completion\<rparr>,
                  w')))"

text \<open>What the constructor of \<^verbatim>\<open>GcpServer\<close> receives, besides the REST client.\<close>

record gcp_server =
  server_accountId :: string
  server_locator :: locator
  server_name :: string
  server_completion :: completion

definition createServer ::
  "'p env \<Rightarrow> string \<Rightarrow> js_date \<Rightarrow> string \<Rightarrow> string \<Rightarrow> string \<Rightarrow> 'p world
     \<Rightarrow> (error + gcp_server) \<times> 'p world" where
  "createServer env accountId now projectId description zoneId w =
     (let (r, w') = createInstance env now projectId description zoneId w
      in case r of
           Inl e \<Rightarrow> (Inl e, w')
         | Inr handle \<Rightarrow>
             (let loc = \<lparr>loc_projectId = projectId, loc_zoneId = zoneId,
                         loc_instanceId = ih_instanceId handle\<rparr>
              in (Inr \<lparr>server_accountId = accountId, server_locator = loc,
                       server_name = ih_name handle,
                       server_completion = ih_completion handle\<rparr>, w')))"

subsection \<open>A provider to run the account against\<close>

text \<open>
  A small cloud on which every call is answered: it keeps the names of the firewall
  rules and the reserved addresses, leaves an empty list out of its answers, reports an operation as not done for a number of
  polls, and can attach an error to the operations of firewall creation and of service
  enablement.
\<close>

record cloud =
  cloud_firewalls :: "string list"
  cloud_addresses :: "string option list"
  cloud_pending :: nat
  cloud_billing :: bool
  cloud_services :: "string list"
  cloud_zones :: "zone list"
  cloud_firewall_fault :: "string list option"
  cloud_services_fault :: "string list option"

definition poll :: "string \<Rightarrow> string list option \<Rightarrow> cloud \<Rightarrow> (error + operation) \<times> cloud" where
  "poll name fault c =
     (if cloud_pending c = 0
      then (Inr \<lparr>op_name = name, op_done = True, op_error = fault, op_targetId = []\<rparr>, c)
      else (Inr \<lparr>op_name = name, op_done = False, op_error = None, op_targetId = []\<rparr>,
            c\<lparr>cloud_pending := cloud_pending c - 1\<rparr>))"

definition started :: "string \<Rightarrow> string \<Rightarrow> operation" where
  "started name target = \<lparr>op_name = name, op_done = False, op_error = None, op_targetId = target\<rparr>"

definition cloud_env :: "cloud env" where
  "cloud_env =
     \<lparr>api_listZones = (\<lambda>projectId c. (Inr \<lparr>zones_items = Some (cloud_zones c)\<rparr>, c)),
      api_createProject = (\<lambda>projectId data c. (Inr (started ''operations/cp'' projectId), c)),
      api_resourceManagerOperationGet = (\<lambda>name c. poll name None c),
      api_updateProjectBillingInfo =
        (\<lambda>projectId data c. (Inr \<lparr>billingEnabled = True\<rparr>, c\<lparr>cloud_billing := True\<rparr>)),
      api_enableServices =
        (\<lambda>projectId data c.
           (Inr (started ''operations/es'' projectId),
            c\<lparr>cloud_services := cloud_services c @ serviceIds data\<rparr>)),
      api_serviceUsageOperationGet = (\<lambda>name c. poll name (cloud_services_fault c) c),
      api_getProjectBillingInfo =
        (\<lambda>projectId c. (Inr \<lparr>billingEnabled = cloud_billing c\<rparr>, c)),
      api_listEnabledServices =
        (\<lambda>projectId c.
           (Inr \<lparr>services =
                   (if cloud_services c = [] then None
                    else Some (map (\<lambda>n. \<lparr>config = \<lparr>config_name = n\<rparr>\<rparr>) (cloud_services c)))\<rparr>,
            c)),
      api_listFirewalls =
        (\<lambda>projectId name c.
           (let found = filter (\<lambda>n. n = name) (cloud_firewalls c)
            in (Inr (Some \<lparr>firewalls_items =
                  (if found = [] then None
                   else Some (map (\<lambda>n. \<lparr>firewall_name = n\<rparr>) found))\<rparr>), c))),
      api_createFirewall =
        (\<lambda>projectId data c.
           (Inr \<lparr>op_name = ''operation-fw'', op_done = True,
                 op_error = cloud_firewall_fault c, op_targetId = []\<rparr>,
            (if cloud_firewall_fault c = None
             then c\<lparr>cloud_firewalls := cloud_firewalls c @ [cf_name data]\<rparr> else c))),
      api_createInstance =
        (\<lambda>projectId zoneId data c. (Inr (started ''operation-vm'' ''4242''), c)),
      api_computeEngineOperationZoneWait =
        (\<lambda>projectId zoneId name c.
           (Inr \<lparr>op_name = name, op_done = True, op_error = None, op_targetId = ''4242''\<rparr>, c)),
      api_getInstance =
        (\<lambda>loc c.
           (Inr \<lparr>instance_name = ''outline-1'', instance_description = ''relay'',
                 networkInterfaces = [\<lparr>accessConfigs = [\<lparr>natIP = Some ''203.0.113.7''\<rparr>]\<rparr>]\<rparr>,
            c)),
      api_createStaticIp =
        (\<lambda>projectId regionId data c.
           (Inr \<lparr>op_name = ''operation-ip'', op_done = True, op_error = None, op_targetId = []\<rparr>,
            c\<lparr>cloud_addresses := cloud_addresses c @ [sip_address data]\<rparr>)),
      sleep_for = (\<lambda>ms c. c),
      getRegionId = (\<lambda>zoneId. take (nat (lastIndexOf zoneId CHR ''-'')) zoneId),
      SCRIPT = ''install''\<rparr>"

definition fresh_cloud :: cloud where
  "fresh_cloud =
     \<lparr>cloud_firewalls = [], cloud_addresses = [], cloud_pending = 0, cloud_billing = False,
      cloud_services = [],
      cloud_zones =
        [\<lparr>zone_name = ''us-central1-a'', zone_region = ''https://compute/regions/us-central1'',
          zone_status = ''UP''\<rparr>,
         \<lparr>zone_name = ''us-central1-b'', zone_region = ''https://compute/regions/us-central1'',
          zone_status = ''DOWN''\<rparr>,
         \<lparr>zone_name = ''europe-west1-b'', zone_region = ''https://compute/regions/europe-west1'',
          zone_status = ''UP''\<rparr>],
      cloud_firewall_fault = None, cloud_services_fault = None\<rparr>"

definition healthy_cloud :: cloud where
  "healthy_cloud =
     fresh_cloud\<lparr>cloud_billing := True,
       cloud_services := [''dns.googleapis.com'', ''compute.googleapis.com'']\<rparr>"

definition billed_cloud :: cloud where
  "billed_cloud = fresh_cloud\<lparr>cloud_billing := True\<rparr>"

definition slow_faulty_cloud :: cloud where
  "slow_faulty_cloud =
     fresh_cloud\<lparr>cloud_pending := 2, cloud_services_fault := Some [''PERMISSION_DENIED'']\<rparr>"

definition firewall_fault_cloud :: cloud where
  "firewall_fault_cloud = fresh_cloud\<lparr>cloud_firewall_fault := Some [''QUOTA_EXCEEDED'']\<rparr>"

definition unbilled_env :: "cloud env" where
  "unbilled_env =
     cloud_env\<lparr>api_updateProjectBillingInfo :=
       (\<lambda>projectId data c. (Inl (ApiError ''403''), c))\<rparr>"

definition unlisted_env :: "cloud env" where
  "unlisted_env =
     cloud_env\<lparr>api_listFirewalls := (\<lambda>projectId name c. (Inl (ApiError ''503''), c))\<rparr>"

definition start :: "'p \<Rightarrow> 'p world" where
  "start p = \<lparr>provider = p, trace = []\<rparr>"

subsection \<open>Shapes of traces\<close>

text \<open>The events of polling the service-enablement operation, one answer after another.\<close>

definition polls :: "string \<Rightarrow> operation list \<Rightarrow> event list" where
  "polls name ops =
     concat (map (\<lambda>operation. [Sleep 2000, ServiceUsageOperationGet name (Inr operation)]) ops)"

definition isPoll :: "event \<Rightarrow> bool" where
  "isPoll ev =
     (case ev of Sleep _ \<Rightarrow> True | ServiceUsageOperationGet _ _ \<Rightarrow> True | _ \<Rightarrow> False)"

definition isBillingLink :: "event \<Rightarrow> bool" where
  "isBillingLink ev = (case ev of UpdateProjectBillingInfo _ _ _ \<Rightarrow> True | _ \<Rightarrow> False)"

definition isServiceEnablement :: "event \<Rightarrow> bool" where
  "isServiceEnablement ev = (case ev of EnableServices _ _ _ \<Rightarrow> True | _ \<Rightarrow> False)"

definition billingData :: "string \<Rightarrow> string \<Rightarrow> update_billing_data" where
  "billingData projectId billingAccountId =
     \<lparr>ub_name = ''projects/'' @ projectId @ ''/billingInfo'', ub_projectId = projectId,
      ub_billingAccountName = ''billingAccounts/'' @ billingAccountId\<rparr>"

text \<open>
  The provider answers the polls of the operation \<open>name\<close>, from the state \<open>p\<close>, with
  the operations \<open>ops\<close> in this order, and is left in the state \<open>p'\<close>.
\<close>

primrec answered :: "'p env \<Rightarrow> string \<Rightarrow> operation list \<Rightarrow> 'p \<Rightarrow> 'p \<Rightarrow> bool" where
  "answered env name [] p p' = (p = p')"
| "answered env name (x # xs) p p' =
     (case api_serviceUsageOperationGet env name (sleep_for env 2000 p) of
        (Inl e, p1) \<Rightarrow> False
      | (Inr y, p1) \<Rightarrow> y = x \<and> answered env name xs p1 p')"

text \<open>
  The suffix of a URL after its last slash; the whole of it when it has no slash.
\<close>

definition afterLastSlash :: "string \<Rightarrow> string" where
  "afterLastSlash url = rev (takeWhile (\<lambda>c. c \<noteq> CHR ''/'') (rev url))"

text \<open>The answers to \<^verbatim>\<open>listFirewalls\<close> on which the account creates the rule.\<close>

definition noFirewall :: "list_firewalls_response option \<Rightarrow> bool" where
  "noFirewall response =
     (case response of
        None \<Rightarrow> True
      | Some r \<Rightarrow> (case firewalls_items r of None \<Rightarrow> True | Some items \<Rightarrow> items = []))"

definition outlineFirewallData :: create_firewall_data where
  "outlineFirewallData =
     \<lparr>cf_name = OUTLINE_FIREWALL_NAME, cf_direction = ''INGRESS'', cf_priority = 1000,
      cf_targetTags = [OUTLINE_FIREWALL_TAG], cf_allowed = [''all''],
      cf_sourceRanges = [''0.0.0.0/0'']\<rparr>"

text \<open>An answer in the trace reports the operation that creates the instance as done.\<close>

definition reportsCreationDone :: "event \<Rightarrow> bool" where
  "reportsCreationDone ev =
     (case ev of
        CreateInstance _ _ _ (Inr operation) \<Rightarrow> op_done operation
      | ComputeEngineOperationZoneWait _ _ _ (Inr operation) \<Rightarrow> op_done operation
      | _ \<Rightarrow> False)"

definition creationDone :: "event list \<Rightarrow> bool" where
  "creationDone events = list_ex reportsCreationDone events"

text \<open>
  The joined promise is fulfilled exactly when both tasks are fulfilled, and rejected
  exactly when a task is rejected.
\<close>

definition fulfilled :: "'a task \<Rightarrow> bool" where
  "fulfilled t = (case t of Resolved _ \<Rightarrow> True | _ \<Rightarrow> False)"

definition rejected :: "'a task \<Rightarrow> bool" where
  "rejected t = (case t of Rejected _ \<Rightarrow> True | _ \<Rightarrow> False)"

definition joined :: "completion \<Rightarrow> bool" where
  "joined c =
     ((outcome c = Some (Inr ())) = (fulfilled (ipPromotion c) \<and> fulfilled (firewallSetup c))
      \<and> (case outcome c of Some (Inl e) \<Rightarrow> True | _ \<Rightarrow> False)
          = (rejected (ipPromotion c) \<or> rejected (firewallSetup c)))"

section \<open>Instance names\<close>

text \<open>
  C3. The name is built from the unpadded getters, with the zero-based month: on
  5 March 2021 at 07:08:09 it is \<^verbatim>\<open>outline-202125-789\<close>, not
  \<^verbatim>\<open>outline-20210305-070809\<close>.
\<close>

theorem makeInstanceName_march_5:
  "makeInstanceName march_5 = ''outline-202125-789''
   \<and> padded_instance_name march_5 = ''outline-20210305-070809''
   \<and> makeInstanceName march_5 \<noteq> padded_instance_name march_5"
  by code_simp

text \<open>
  Two calls within one second read the same getters and get the same name. Without the
  padding, so do calls on different days: 11 February and 1 December 2021.
\<close>

lemma makeInstanceName_same_second:
  "makeInstanceName (now\<lparr>getUTCMilliseconds := ms\<rparr>) = makeInstanceName now"
  by (simp add: makeInstanceName_def)

lemma makeInstanceName_not_unique:
  "makeInstanceName
     \<lparr>getFullYear = 2021, getMonth = 1, getDate = 11, getUTCHours = 1, getUTCMinutes = 2,
      getUTCSeconds = 3, getUTCMilliseconds = 0\<rparr>
   = makeInstanceName
       \<lparr>getFullYear = 2021, getMonth = 11, getDate = 1, getUTCHours = 1, getUTCMinutes = 2,
        getUTCSeconds = 3, getUTCMilliseconds = 0\<rparr>"
  by code_simp

section \<open>listLocations\<close>

lemma lastIndexOf_nonneg: "0 \<le> lastIndexOf s c \<longleftrightarrow> c \<in> set s"
  by (induction s) (auto simp: Let_def)

lemma takeWhile_absent:
  "c \<notin> set ys \<Longrightarrow> takeWhile (\<lambda>x. x \<noteq> c) (ys @ zs) = ys @ takeWhile (\<lambda>x. x \<noteq> c) zs"
  by (induction ys) auto

lemma substring_lastIndexOf:
  "substring s (lastIndexOf s c + 1) = rev (takeWhile (\<lambda>x. x \<noteq> c) (rev s))"
proof (induction s)
  case Nil
  show ?case by (simp add: substring_def)
next
  case (Cons x xs)
  show ?case
  proof (cases "c \<in> set xs")
    case True
    then have i: "0 \<le> lastIndexOf xs c" by (simp add: lastIndexOf_nonneg)
    then have "nat (lastIndexOf xs c + 1 + 1) = Suc (nat (lastIndexOf xs c + 1))" by simp
    with i Cons True show ?thesis
      by (simp add: substring_def Let_def takeWhile_append1)
  next
    case False
    then have i: "\<not> 0 \<le> lastIndexOf xs c" by (simp add: lastIndexOf_nonneg)
    from False have "c \<notin> set (rev xs)" by simp
    from takeWhile_absent [OF this] i show ?thesis
      by (simp add: substring_def Let_def)
  qed
qed

lemma addZone_Inr:
  assumes "addZone m z = Inr m'" and "\<forall>k. k \<in> set OBJECT_PROTOTYPE_KEYS \<longrightarrow> m k = None"
  shows "\<forall>k. k \<in> set OBJECT_PROTOTYPE_KEYS \<longrightarrow> m' k = None"
    and "m' r =
      (if r = regionOf z \<and> r \<notin> set OBJECT_PROTOTYPE_KEYS
       then Some ((case m r of None \<Rightarrow> [] | Some ns \<Rightarrow> ns)
              @ (if zone_status z = ''UP'' then [zone_name z] else []))
       else m r)"
  using assms
  by (auto simp: addZone_def Let_def split: if_splits option.splits)

lemma addZones_Inr:
  "addZones m zs = Inr m' \<Longrightarrow> \<forall>k. k \<in> set OBJECT_PROTOTYPE_KEYS \<longrightarrow> m k = None \<Longrightarrow>
   m' r =
     (if r \<notin> set OBJECT_PROTOTYPE_KEYS \<and> (\<exists>z\<in>set zs. regionOf z = r)
      then Some ((case m r of None \<Rightarrow> [] | Some ns \<Rightarrow> ns)
             @ map zone_name (filter (\<lambda>z. zone_status z = ''UP'' \<and> regionOf z = r) zs))
      else m r)"
proof (induction zs arbitrary: m)
  case Nil
  then show ?case by (auto split: option.splits)
next
  case (Cons z zs)
  from Cons.prems(1) obtain m1 where m1: "addZone m z = Inr m1" and rest: "addZones m1 zs = Inr m'"
    by (auto split: sum.splits)
  note a = addZone_Inr [OF m1 Cons.prems(2)]
  have m1r: "m1 r =
      (if r = regionOf z \<and> r \<notin> set OBJECT_PROTOTYPE_KEYS
       then Some ((case m r of None \<Rightarrow> [] | Some ns \<Rightarrow> ns)
              @ (if zone_status z = ''UP'' then [zone_name z] else []))
       else m r)"
    by (rule a(2))
  show ?case
    unfolding Cons.IH [OF rest a(1)] m1r
    by (auto split: option.splits)
qed

lemma addZones_returns:
  "\<forall>z\<in>set zs. zone_status z = ''UP'' \<longrightarrow> regionOf z \<notin> set OBJECT_PROTOTYPE_KEYS \<Longrightarrow>
   \<forall>k. k \<in> set OBJECT_PROTOTYPE_KEYS \<longrightarrow> m k = None \<Longrightarrow> \<exists>m'. addZones m zs = Inr m'"
proof (induction zs arbitrary: m)
  case Nil
  then show ?case by simp
next
  case (Cons z zs)
  have "\<exists>m1. addZone m z = Inr m1"
    using Cons.prems by (auto simp: addZone_def Let_def split: option.splits)
  then obtain m1 where m1: "addZone m z = Inr m1" ..
  from addZone_Inr(1) [OF m1 Cons.prems(2)] Cons.IH [of m1] Cons.prems(1) m1
  show ?case by auto
qed

lemma afterLastSlash_suffix:
  "CHR ''/'' \<notin> set (afterLastSlash url)
   \<and> (\<exists>pre. url = pre @ afterLastSlash url \<and> (pre = [] \<or> last pre = CHR ''/''))"
proof -
  let ?P = "\<lambda>c. c \<noteq> CHR ''/''"
  let ?pre = "rev (dropWhile ?P (rev url))"
  have "CHR ''/'' \<notin> set (afterLastSlash url)"
    by (auto simp: afterLastSlash_def dest: set_takeWhileD)
  moreover have "url = ?pre @ afterLastSlash url"
  proof -
    have "rev (rev url) = rev (takeWhile ?P (rev url) @ dropWhile ?P (rev url))"
      by (simp only: takeWhile_dropWhile_id)
    then show ?thesis by (simp only: rev_rev_ident rev_append afterLastSlash_def)
  qed
  moreover have "?pre = [] \<or> last ?pre = CHR ''/''"
  proof (cases "dropWhile ?P (rev url) = []")
    case True
    then show ?thesis by simp
  next
    case False
    with hd_dropWhile [of ?P "rev url"] show ?thesis by (simp add: last_rev)
  qed
  ultimately show ?thesis by blast
qed

lemma regionOf_afterLastSlash: "regionOf z = afterLastSlash (zone_region z)"
  by (simp add: substring_lastIndexOf afterLastSlash_def)

lemma listLocations_regionOf:
  assumes zones: "api_listZones env projectId (provider w) = (Inr response, p')"
    and "\<forall>z\<in>set (case zones_items response of None \<Rightarrow> [] | Some items \<Rightarrow> items).
           zone_status z = ''UP'' \<longrightarrow> regionOf z \<notin> set OBJECT_PROTOTYPE_KEYS"
  shows "\<exists>result.
           listLocations env projectId w =
             (Inr result, \<lparr>provider = p', trace = trace w @ [ListZones projectId (Inr response)]\<rparr>)
           \<and> (\<forall>region. result region =
                (if region \<notin> set OBJECT_PROTOTYPE_KEYS
                    \<and> (\<exists>z\<in>set (case zones_items response of None \<Rightarrow> [] | Some items \<Rightarrow> items).
                          regionOf z = region)
                 then Some (map zone_name
                        (filter (\<lambda>z. zone_status z = ''UP'' \<and> regionOf z = region)
                           (case zones_items response of None \<Rightarrow> [] | Some items \<Rightarrow> items)))
                 else None))"
proof -
  let ?zones = "case zones_items response of None \<Rightarrow> [] | Some items \<Rightarrow> items"
  have empty: "\<forall>k. k \<in> set OBJECT_PROTOTYPE_KEYS \<longrightarrow> (Map.empty :: zone_map) k = None" by simp
  from addZones_returns [OF assms(2) empty]
  obtain result where result: "addZones Map.empty ?zones = Inr result" ..
  have "listLocations env projectId w =
          (Inr result, \<lparr>provider = p', trace = trace w @ [ListZones projectId (Inr response)]\<rparr>)"
    using zones by (simp add: listLocations_def perform_def result)
  moreover have "\<forall>region. result region =
      (if region \<notin> set OBJECT_PROTOTYPE_KEYS \<and> (\<exists>z\<in>set ?zones. regionOf z = region)
       then Some (map zone_name
              (filter (\<lambda>z. zone_status z = ''UP'' \<and> regionOf z = region) ?zones))
       else None)"
    using addZones_Inr [OF result empty] by simp
  ultimately show ?thesis by blast
qed

text \<open>
  C7. When \<^verbatim>\<open>listLocations\<close> returns, the list under a key holds exactly the names of
  the zones whose status is \<^verbatim>\<open>UP\<close> and whose region URL ends, after its last slash,
  in that key; the keys are those suffixes of the listed zones. So every name in the
  map is the name of an \<^verbatim>\<open>UP\<close> zone whose region URL is some prefix, empty or ending
  in a slash, followed by the key, and the key holds no slash. The call returns unless
  an \<^verbatim>\<open>UP\<close> zone's suffix is a property name inherited from \<^verbatim>\<open>Object.prototype\<close>,
  where the \<^verbatim>\<open>push\<close> throws.
\<close>

theorem listLocations_zone_map:
  assumes zones: "api_listZones env projectId (provider w) = (Inr response, p')"
    and up: "\<forall>z\<in>set (case zones_items response of None \<Rightarrow> [] | Some items \<Rightarrow> items).
           zone_status z = ''UP'' \<longrightarrow>
           afterLastSlash (zone_region z) \<notin> set OBJECT_PROTOTYPE_KEYS"
  shows "\<exists>result.
           listLocations env projectId w =
             (Inr result, \<lparr>provider = p', trace = trace w @ [ListZones projectId (Inr response)]\<rparr>)
           \<and> (\<forall>region. result region =
                (if region \<notin> set OBJECT_PROTOTYPE_KEYS
                    \<and> (\<exists>z\<in>set (case zones_items response of None \<Rightarrow> [] | Some items \<Rightarrow> items).
                          afterLastSlash (zone_region z) = region)
                 then Some (map zone_name
                        (filter (\<lambda>z. zone_status z = ''UP''
                                   \<and> afterLastSlash (zone_region z) = region)
                           (case zones_items response of None \<Rightarrow> [] | Some items \<Rightarrow> items)))
                 else None))
           \<and> (\<forall>region names name.
                result region = Some names \<and> name \<in> set names \<longrightarrow>
                (\<exists>z\<in>set (case zones_items response of None \<Rightarrow> [] | Some items \<Rightarrow> items).
                   zone_name z = name \<and> zone_status z = ''UP''
                   \<and> CHR ''/'' \<notin> set region
                   \<and> (\<exists>pre. zone_region z = pre @ region
                         \<and> (pre = [] \<or> last pre = CHR ''/''))))"
proof -
  let ?zones = "case zones_items response of None \<Rightarrow> [] | Some items \<Rightarrow> items"
  from up have "\<forall>z\<in>set ?zones.
      zone_status z = ''UP'' \<longrightarrow> regionOf z \<notin> set OBJECT_PROTOTYPE_KEYS"
    by (simp add: regionOf_afterLastSlash)
  from listLocations_regionOf [OF zones this] obtain result where
    r: "listLocations env projectId w =
          (Inr result, \<lparr>provider = p', trace = trace w @ [ListZones projectId (Inr response)]\<rparr>)"
    and m: "\<forall>region. result region =
      (if region \<notin> set OBJECT_PROTOTYPE_KEYS \<and> (\<exists>z\<in>set ?zones. regionOf z = region)
       then Some (map zone_name
              (filter (\<lambda>z. zone_status z = ''UP'' \<and> regionOf z = region) ?zones))
       else None)"
    by blast
  have m': "\<forall>region. result region =
      (if region \<notin> set OBJECT_PROTOTYPE_KEYS
          \<and> (\<exists>z\<in>set ?zones. afterLastSlash (zone_region z) = region)
       then Some (map zone_name
              (filter (\<lambda>z. zone_status z = ''UP'' \<and> afterLastSlash (zone_region z) = region)
                 ?zones))
       else None)"
    using m by (simp add: regionOf_afterLastSlash)
  have "\<forall>region names name.
      result region = Some names \<and> name \<in> set names \<longrightarrow>
      (\<exists>z\<in>set ?zones.
         zone_name z = name \<and> zone_status z = ''UP''
         \<and> CHR ''/'' \<notin> set region
         \<and> (\<exists>pre. zone_region z = pre @ region \<and> (pre = [] \<or> last pre = CHR ''/'')))"
  proof (intro allI impI)
    fix region names name
    assume a: "result region = Some names \<and> name \<in> set names"
    with m' have "names = map zone_name
        (filter (\<lambda>z. zone_status z = ''UP'' \<and> afterLastSlash (zone_region z) = region) ?zones)"
      by (auto split: if_splits)
    with a obtain z where z: "z \<in> set ?zones" "zone_name z = name" "zone_status z = ''UP''"
      "afterLastSlash (zone_region z) = region"
      by auto
    from afterLastSlash_suffix [of "zone_region z"] z(4)
    have "CHR ''/'' \<notin> set region
        \<and> (\<exists>pre. zone_region z = pre @ region \<and> (pre = [] \<or> last pre = CHR ''/''))"
      by simp
    with z show "\<exists>z\<in>set ?zones.
         zone_name z = name \<and> zone_status z = ''UP''
         \<and> CHR ''/'' \<notin> set region
         \<and> (\<exists>pre. zone_region z = pre @ region \<and> (pre = [] \<or> last pre = CHR ''/''))"
      by blast
  qed
  with r m' show ?thesis by blast
qed

theorem listLocations_zone_map_witness:
  "\<exists>result. fst (listLocations cloud_env ''proj-1'' (start fresh_cloud)) = Inr result
     \<and> result ''us-central1'' = Some [''us-central1-a'']
     \<and> result ''europe-west1'' = Some [''europe-west1-b'']
     \<and> result ''regions'' = None"
proof -
  let ?zones = "case zones_items \<lparr>zones_items = Some (cloud_zones fresh_cloud)\<rparr> of
                      None \<Rightarrow> [] | Some items \<Rightarrow> items"
  have zones: "api_listZones cloud_env ''proj-1'' (provider (start fresh_cloud))
      = (Inr \<lparr>zones_items = Some (cloud_zones fresh_cloud)\<rparr>, fresh_cloud)"
    by (simp add: cloud_env_def start_def)
  have up: "\<forall>z\<in>set ?zones.
              zone_status z = ''UP'' \<longrightarrow>
              afterLastSlash (zone_region z) \<notin> set OBJECT_PROTOTYPE_KEYS"
    by (simp add: fresh_cloud_def afterLastSlash_def OBJECT_PROTOTYPE_KEYS_def)
  from listLocations_zone_map [OF zones up] obtain result where
    r: "listLocations cloud_env ''proj-1'' (start fresh_cloud) =
          (Inr result, \<lparr>provider = fresh_cloud,
             trace = trace (start fresh_cloud) @
               [ListZones ''proj-1'' (Inr \<lparr>zones_items = Some (cloud_zones fresh_cloud)\<rparr>)]\<rparr>)"
    and m: "\<And>region. result region =
      (if region \<notin> set OBJECT_PROTOTYPE_KEYS
          \<and> (\<exists>z\<in>set ?zones. afterLastSlash (zone_region z) = region)
       then Some (map zone_name
              (filter (\<lambda>z. zone_status z = ''UP'' \<and> afterLastSlash (zone_region z) = region)
                 ?zones))
       else None)"
    by blast
  have "result ''us-central1'' = Some [''us-central1-a'']"
    unfolding m by (simp add: fresh_cloud_def afterLastSlash_def OBJECT_PROTOTYPE_KEYS_def)
  moreover have "result ''europe-west1'' = Some [''europe-west1-b'']"
    unfolding m by (simp add: fresh_cloud_def afterLastSlash_def OBJECT_PROTOTYPE_KEYS_def)
  moreover have "result ''regions'' = None"
    unfolding m by (simp add: fresh_cloud_def afterLastSlash_def OBJECT_PROTOTYPE_KEYS_def)
  ultimately show ?thesis using r by simp
qed

section \<open>isProjectHealthy\<close>

lemma find_SomeD: "find P xs = Some x \<Longrightarrow> x \<in> set xs \<and> P x"
  by (induction xs) (auto split: if_splits)

lemma requiredServicesFound_iff:
  "requiredServicesFound (Some enabled) required
   = Inr (\<forall>r\<in>set required. \<exists>s\<in>set enabled. config_name (config s) = r)"
  by (induction required) (auto simp: find_None_iff split: option.splits dest: find_SomeD)

text \<open>
  When the billing query is answered and, with billing enabled, the services query is
  answered with a list, \<^verbatim>\<open>isProjectHealthy\<close> returns false exactly when billing is
  disabled or a required service is missing from the list, and it calls nothing but
  the two queries (the second only when billing is enabled).
\<close>

lemma isProjectHealthy_iff:
  assumes billing: "api_getProjectBillingInfo env projectId (provider w) = (Inr info, p1)"
    and enabled: "billingEnabled info \<Longrightarrow>
        api_listEnabledServices env projectId p1 = (Inr response, p2)
        \<and> services response = Some enabled"
  shows "\<exists>healthy.
           isProjectHealthy env projectId w =
             (Inr healthy,
              if billingEnabled info
              then \<lparr>provider = p2,
                     trace = trace w @ [GetProjectBillingInfo projectId (Inr info),
                               ListEnabledServices projectId (Inr response)]\<rparr>
              else \<lparr>provider = p1,
                     trace = trace w @ [GetProjectBillingInfo projectId (Inr info)]\<rparr>)
           \<and> (healthy = False \<longleftrightarrow>
                \<not> billingEnabled info
                \<or> (\<exists>required\<in>set REQUIRED_GCP_SERVICES.
                      required \<notin> set (map (\<lambda>s. config_name (config s)) enabled)))"
proof (cases "billingEnabled info")
  case False
  with billing show ?thesis
    by (auto simp: isProjectHealthy_def perform_def)
next
  case True
  from enabled [OF True] have listed:
    "api_listEnabledServices env projectId p1 = (Inr response, p2)"
    and some: "services response = Some enabled"
    by simp_all
  have "perform (api_listEnabledServices env projectId) (ListEnabledServices projectId)
          \<lparr>provider = p1, trace = trace w @ [GetProjectBillingInfo projectId (Inr info)]\<rparr>
        = (Inr response, \<lparr>provider = p2,
             trace = trace w @ [GetProjectBillingInfo projectId (Inr info),
                       ListEnabledServices projectId (Inr response)]\<rparr>)"
    using listed by (simp add: perform_def)
  moreover have "perform (api_getProjectBillingInfo env projectId) (GetProjectBillingInfo projectId) w
        = (Inr info, \<lparr>provider = p1, trace = trace w @ [GetProjectBillingInfo projectId (Inr info)]\<rparr>)"
    using billing by (simp add: perform_def)
  moreover have "(\<forall>r\<in>set REQUIRED_GCP_SERVICES. \<exists>s\<in>set enabled. config_name (config s) = r)
      \<longleftrightarrow> \<not> (\<exists>required\<in>set REQUIRED_GCP_SERVICES.
                 required \<notin> set (map (\<lambda>s. config_name (config s)) enabled))"
    by (simp add: image_iff) metis
  ultimately show ?thesis using True some
    by (simp add: isProjectHealthy_def requiredServicesFound_iff)
qed

lemma isProjectHealthy_examples:
  "fst (isProjectHealthy cloud_env ''proj-1'' (start healthy_cloud)) = Inr True
   \<and> fst (isProjectHealthy cloud_env ''proj-1'' (start fresh_cloud)) = Inr False"
proof -
  have "fst (isProjectHealthy cloud_env ''proj-1'' (start healthy_cloud)) = Inr True"
    using isProjectHealthy_iff [of cloud_env "''proj-1''" "start healthy_cloud"
        "\<lparr>billingEnabled = True\<rparr>" healthy_cloud
        "\<lparr>services =
            Some (map (\<lambda>n. \<lparr>config = \<lparr>config_name = n\<rparr>\<rparr>) (cloud_services healthy_cloud))\<rparr>"
        healthy_cloud
        "map (\<lambda>n. \<lparr>config = \<lparr>config_name = n\<rparr>\<rparr>) (cloud_services healthy_cloud)"]
    by (auto simp: cloud_env_def start_def healthy_cloud_def fresh_cloud_def
        REQUIRED_GCP_SERVICES_def)
  moreover have "fst (isProjectHealthy cloud_env ''proj-1'' (start fresh_cloud)) = Inr False"
    using isProjectHealthy_iff [of cloud_env "''proj-1''" "start fresh_cloud"
        "\<lparr>billingEnabled = False\<rparr>" fresh_cloud]
    by (auto simp: cloud_env_def start_def fresh_cloud_def REQUIRED_GCP_SERVICES_def)
  ultimately show ?thesis by simp
qed

text \<open>
  On an answer without the \<^verbatim>\<open>services\<close> field the call is rejected, for every provider.
\<close>

lemma isProjectHealthy_services_absent:
  assumes "api_getProjectBillingInfo env projectId (provider w) = (Inr info, p1)"
    and "billingEnabled info"
    and "api_listEnabledServices env projectId p1 = (Inr response, p2)"
    and "services response = None"
  shows "isProjectHealthy env projectId w =
           (Inl (TypeError ''listEnabledServicesResponse.services is undefined''),
            \<lparr>provider = p2,
             trace = trace w @ [GetProjectBillingInfo projectId (Inr info),
                       ListEnabledServices projectId (Inr response)]\<rparr>)"
  using assms
  by (simp add: isProjectHealthy_def perform_def REQUIRED_GCP_SERVICES_def)

text \<open>
  C4. A project with billing enabled and no enabled service: the services query is
  answered without the \<^verbatim>\<open>services\<close> field, and \<^verbatim>\<open>isProjectHealthy\<close> is rejected with
  a \<^verbatim>\<open>TypeError\<close> where a required service is missing and the result should be false.
\<close>

theorem isProjectHealthy_without_services:
  "isProjectHealthy cloud_env ''proj-1'' (start billed_cloud) =
     (Inl (TypeError ''listEnabledServicesResponse.services is undefined''),
      \<lparr>provider = billed_cloud,
       trace = [GetProjectBillingInfo ''proj-1'' (Inr \<lparr>billingEnabled = True\<rparr>),
                ListEnabledServices ''proj-1'' (Inr \<lparr>services = None\<rparr>)]\<rparr>)"
  by (simp add: isProjectHealthy_def perform_def cloud_env_def start_def billed_cloud_def
      fresh_cloud_def REQUIRED_GCP_SERVICES_def)

section \<open>The polling loops\<close>

lemma polls_Cons:
  "polls name (operation # ops)
   = Sleep 2000 # ServiceUsageOperationGet name (Inr operation) # polls name ops"
  by (simp add: polls_def)

lemma enableServicesLoop_shape:
  "enableServicesLoop env name operation w = Some y \<Longrightarrow>
   (\<forall>result w'. y = (Inr result, w') \<longrightarrow>
      done_of result
      \<and> (\<exists>ops. trace w' = trace w @ polls name ops
            \<and> (case operation of None \<Rightarrow> [] | Some x \<Rightarrow> [x]) @ ops \<noteq> []
            \<and> result = Some (last ((case operation of None \<Rightarrow> [] | Some x \<Rightarrow> [x]) @ ops))
            \<and> (\<forall>x\<in>set (butlast ((case operation of None \<Rightarrow> [] | Some x \<Rightarrow> [x]) @ ops)).
                  \<not> op_done x)))"
proof (induct rule: enableServicesLoop.raw_induct [rotated 1, consumes 1])
  case (1 loop env name operation w y)
  show ?case
  proof (cases "done_of operation")
    case True
    with 1(2) have y: "y = (Inr operation, w)" by simp
    from True obtain x where "operation = Some x" by (cases operation) (auto simp: done_of_def)
    with y True show ?thesis by (auto simp: polls_def)
  next
    case False
    obtain r w2 where p: "perform (api_serviceUsageOperationGet env name)
        (ServiceUsageOperationGet name) (sleep env (2 * 1000) w) = (r, w2)"
      by (cases "perform (api_serviceUsageOperationGet env name)
        (ServiceUsageOperationGet name) (sleep env (2 * 1000) w)")
    then have tr: "trace w2 = trace w @ [Sleep 2000, ServiceUsageOperationGet name r]"
      by (auto simp: perform_def sleep_def split: prod.splits)
    show ?thesis
    proof (cases r)
      case (Inl e)
      with 1(2) False p show ?thesis by auto
    next
      case (Inr x')
      with 1(2) False p have "loop env name (Some x') w2 = Some y" by simp
      from 1(1) [OF this] have ih: "\<forall>result w'. y = (Inr result, w') \<longrightarrow>
        done_of result
        \<and> (\<exists>ops. trace w' = trace w2 @ polls name ops
            \<and> result = Some (last (x' # ops))
            \<and> (\<forall>x\<in>set (butlast (x' # ops)). \<not> op_done x))"
        by simp
      have hist: "\<forall>x\<in>set (case operation of None \<Rightarrow> [] | Some x \<Rightarrow> [x]). \<not> op_done x"
        using False by (auto simp: done_of_def split: option.splits)
      show ?thesis
      proof (intro allI impI)
        fix result w' assume "y = (Inr result, w')"
        with ih obtain ops where d: "done_of result"
          and t: "trace w' = trace w2 @ polls name ops"
          and l: "result = Some (last (x' # ops))"
          and b: "\<forall>x\<in>set (butlast (x' # ops)). \<not> op_done x"
          by blast
        have "trace w' = trace w @ polls name (x' # ops)"
          using t tr Inr by (simp add: polls_Cons)
        moreover have "result = Some (last ((case operation of None \<Rightarrow> [] | Some x \<Rightarrow> [x]) @ x' # ops))"
          using l by simp
        moreover have "\<forall>x\<in>set (butlast ((case operation of None \<Rightarrow> [] | Some x \<Rightarrow> [x]) @ x' # ops)).
                  \<not> op_done x"
          using hist b by (auto simp: butlast_append)
        ultimately show "done_of result
      \<and> (\<exists>ops. trace w' = trace w @ polls name ops
            \<and> (case operation of None \<Rightarrow> [] | Some x \<Rightarrow> [x]) @ ops \<noteq> []
            \<and> result = Some (last ((case operation of None \<Rightarrow> [] | Some x \<Rightarrow> [x]) @ ops))
            \<and> (\<forall>x\<in>set (butlast ((case operation of None \<Rightarrow> [] | Some x \<Rightarrow> [x]) @ ops)).
                  \<not> op_done x))"
          using d by (intro conjI exI [of _ "x' # ops"]) simp_all
      qed
    qed
  qed
qed

lemma enableServicesLoop_polls_only:
  "enableServicesLoop env name operation w = Some y \<Longrightarrow>
   \<exists>evs. trace (snd y) = trace w @ evs \<and> list_all isPoll evs"
proof (induct rule: enableServicesLoop.raw_induct [rotated 1, consumes 1])
  case (1 loop env name operation w y)
  show ?case
  proof (cases "done_of operation")
    case True
    with 1(2) show ?thesis by auto
  next
    case False
    obtain r w2 where p: "perform (api_serviceUsageOperationGet env name)
        (ServiceUsageOperationGet name) (sleep env (2 * 1000) w) = (r, w2)"
      by (cases "perform (api_serviceUsageOperationGet env name)
        (ServiceUsageOperationGet name) (sleep env (2 * 1000) w)")
    then have tr: "trace w2 = trace w @ [Sleep 2000, ServiceUsageOperationGet name r]"
      by (auto simp: perform_def sleep_def split: prod.splits)
    show ?thesis
    proof (cases r)
      case (Inl e)
      with 1(2) False p have "y = (Inl e, w2)" by auto
      with tr show ?thesis by (simp add: isPoll_def)
    next
      case (Inr x')
      with 1(2) False p have "loop env name (Some x') w2 = Some y" by simp
      from 1(1) [OF this] obtain evs where
        "trace (snd y) = trace w2 @ evs" and "list_all isPoll evs" by blast
      with tr have "trace (snd y) = trace w @ ([Sleep 2000, ServiceUsageOperationGet name r] @ evs)
        \<and> list_all isPoll ([Sleep 2000, ServiceUsageOperationGet name r] @ evs)"
        by (simp add: isPoll_def)
      then show ?thesis by blast
    qed
  qed
qed

lemma createProjectLoop_immediate:
  assumes "api_resourceManagerOperationGet env name (sleep_for env 2000 p) = (Inr operation, p')"
    and "op_done operation"
  shows "createProjectLoop env name None \<lparr>provider = p, trace = t\<rparr> =
           Some (Inr (Some operation),
             \<lparr>provider = p', trace = t @ [Sleep 2000, ResourceManagerOperationGet name (Inr operation)]\<rparr>)"
  using assms
  apply (subst createProjectLoop.simps)
  apply (simp add: done_of_def sleep_def perform_def)
  apply (subst createProjectLoop.simps)
  apply (simp add: done_of_def)
  done

lemma polls_append: "polls name (xs @ ys) = polls name xs @ polls name ys"
  by (simp add: polls_def)

lemma enableServicesLoop_answered:
  "answered env name (ops @ [terminal]) p p' \<Longrightarrow> \<forall>x\<in>set ops. \<not> op_done x \<Longrightarrow>
   op_done terminal \<Longrightarrow> \<not> done_of operation \<Longrightarrow>
   enableServicesLoop env name operation \<lparr>provider = p, trace = t\<rparr> =
     Some (Inr (Some terminal),
       \<lparr>provider = p', trace = t @ polls name (ops @ [terminal])\<rparr>)"
proof (induction ops arbitrary: p t operation)
  case Nil
  then show ?case
    apply (subst enableServicesLoop.simps)
    apply (simp add: sleep_def perform_def polls_def split: prod.splits sum.splits)
    apply (subst enableServicesLoop.simps)
    apply (simp add: done_of_def)
    done
next
  case (Cons x ops)
  from Cons.prems(1) obtain p1 where
    g: "api_serviceUsageOperationGet env name (sleep_for env 2000 p) = (Inr x, p1)"
    and rest: "answered env name (ops @ [terminal]) p1 p'"
    by (auto split: prod.splits sum.splits)
  from Cons.prems(2) have nd: "\<not> done_of (Some x)" and all: "\<forall>x\<in>set ops. \<not> op_done x"
    by (simp_all add: done_of_def)
  note ih = Cons.IH [OF rest all Cons.prems(3) nd,
      of "t @ [Sleep 2000, ServiceUsageOperationGet name (Inr x)]"]
  show ?case
    apply (subst enableServicesLoop.simps)
    using g Cons.prems(4) ih
    apply (simp add: sleep_def perform_def polls_Cons)
    done
qed

section \<open>configureProject and createProject\<close>

lemma configureProject_answered:
  assumes update: "api_updateProjectBillingInfo env projectId
        (billingData projectId billingAccountId) (provider w) = (Inr billing, p1)"
    and enable: "api_enableServices env projectId \<lparr>serviceIds = REQUIRED_GCP_SERVICES\<rparr> p1
        = (Inr response, p2)"
    and polled: "answered env (op_name response) (ops @ [terminal]) p2 p3"
    and pending: "\<forall>x\<in>set ops. \<not> op_done x"
    and finished: "op_done terminal"
  shows "configureProject env projectId billingAccountId w =
           Some (Inr (),
             \<lparr>provider = p3,
              trace = trace w @
                [UpdateProjectBillingInfo projectId (billingData projectId billingAccountId)
                   (Inr billing),
                 EnableServices projectId \<lparr>serviceIds = REQUIRED_GCP_SERVICES\<rparr> (Inr response)]
                @ polls (op_name response) (ops @ [terminal])\<rparr>)"
proof -
  have nd: "\<not> done_of None" by (simp add: done_of_def)
  note loop = enableServicesLoop_answered [OF polled pending finished nd]
  show ?thesis
    using update enable
    by (simp add: configureProject_def billingData_def perform_def loop)
qed

lemma configureProject_order:
  assumes "configureProject env projectId billingAccountId w = Some (result, w')"
  shows "\<exists>linked rest.
           trace w' = trace w @
             UpdateProjectBillingInfo projectId (billingData projectId billingAccountId) linked
             # rest
           \<and> (case linked of
                 Inl e \<Rightarrow> rest = []
               | Inr billing \<Rightarrow>
                   (\<exists>requested evs.
                      rest = EnableServices projectId \<lparr>serviceIds = REQUIRED_GCP_SERVICES\<rparr>
                               requested # evs
                      \<and> list_all isPoll evs
                      \<and> (isl requested \<longrightarrow> evs = [])))"
proof -
  let ?data = "billingData projectId billingAccountId"
  obtain r p1 where u: "api_updateProjectBillingInfo env projectId ?data (provider w) = (r, p1)"
    by (cases "api_updateProjectBillingInfo env projectId ?data (provider w)")
  let ?w1 = "\<lparr>provider = p1, trace = trace w @ [UpdateProjectBillingInfo projectId ?data r]\<rparr>"
  have pu: "perform (api_updateProjectBillingInfo env projectId ?data)
      (UpdateProjectBillingInfo projectId ?data) w = (r, ?w1)"
    using u by (simp add: perform_def)
  show ?thesis
  proof (cases r)
    case (Inl e)
    with assms pu have "w' = ?w1" by (auto simp: configureProject_def billingData_def)
    with Inl show ?thesis by simp
  next
    case (Inr billing)
    let ?services = "\<lparr>serviceIds = REQUIRED_GCP_SERVICES\<rparr>"
    obtain r2 p2 where e: "api_enableServices env projectId ?services p1 = (r2, p2)"
      by (cases "api_enableServices env projectId ?services p1")
    let ?w2 = "\<lparr>provider = p2, trace = trace ?w1 @ [EnableServices projectId ?services r2]\<rparr>"
    have pe: "perform (api_enableServices env projectId ?services)
        (EnableServices projectId ?services) ?w1 = (r2, ?w2)"
      using e by (simp add: perform_def)
    show ?thesis
    proof (cases r2)
      case (Inl e2)
      with assms pu Inr pe have "w' = ?w2" by (auto simp: configureProject_def billingData_def)
      with Inr Inl show ?thesis by simp
    next
      case response: (Inr response)
      from assms pu Inr pe response obtain y where
        loop: "enableServicesLoop env (op_name response) None ?w2 = Some y" and y: "snd y = w'"
        by (auto simp: configureProject_def billingData_def
            split: option.splits sum.splits prod.splits if_splits)
      from enableServicesLoop_polls_only [OF loop] y obtain evs where
        "trace w' = trace ?w2 @ evs" and "list_all isPoll evs" by auto
      with Inr response show ?thesis by simp
    qed
  qed
qed

text \<open>
  C8. Every run of \<^verbatim>\<open>configureProject\<close> that ends starts with the billing link;
  only when it is answered does the enablement request follow, and only polls follow
  that. A run that returns normally has polled the operation of the request, every two
  seconds, until an answer was done; when the billing link is rejected nothing is
  requested after it. \<^verbatim>\<open>repairProject\<close> is the same function.
\<close>

theorem configureProject_sequence:
  "(\<forall>result w'. configureProject env projectId billingAccountId w = Some (result, w') \<longrightarrow>
      (\<exists>linked rest.
          trace w' = trace w @
            UpdateProjectBillingInfo projectId (billingData projectId billingAccountId) linked
            # rest
          \<and> (case linked of
                Inl e \<Rightarrow> rest = []
              | Inr billing \<Rightarrow>
                  (\<exists>requested evs.
                     rest = EnableServices projectId \<lparr>serviceIds = REQUIRED_GCP_SERVICES\<rparr>
                              requested # evs
                     \<and> list_all isPoll evs
                     \<and> (isl requested \<longrightarrow> evs = [])))))
   \<and> (\<forall>w'. configureProject env projectId billingAccountId w = Some (Inr (), w') \<longrightarrow>
      (\<exists>billing response ops operation.
          trace w' = trace w @
            [UpdateProjectBillingInfo projectId (billingData projectId billingAccountId)
               (Inr billing),
             EnableServices projectId \<lparr>serviceIds = REQUIRED_GCP_SERVICES\<rparr> (Inr response)]
            @ polls (op_name response) (ops @ [operation])
          \<and> (\<forall>x\<in>set ops. \<not> op_done x) \<and> op_done operation))
   \<and> (\<forall>e p'. api_updateProjectBillingInfo env projectId
                (billingData projectId billingAccountId) (provider w) = (Inl e, p') \<longrightarrow>
        configureProject env projectId billingAccountId w =
          Some (Inl e, \<lparr>provider = p', trace = trace w @
            [UpdateProjectBillingInfo projectId (billingData projectId billingAccountId)
               (Inl e)]\<rparr>))
   \<and> repairProject env projectId billingAccountId w =
       configureProject env projectId billingAccountId w"
proof (intro conjI allI impI)
  fix result w'
  assume "configureProject env projectId billingAccountId w = Some (result, w')"
  then show "\<exists>linked rest.
          trace w' = trace w @
            UpdateProjectBillingInfo projectId (billingData projectId billingAccountId) linked
            # rest
          \<and> (case linked of
                Inl e \<Rightarrow> rest = []
              | Inr billing \<Rightarrow>
                  (\<exists>requested evs.
                     rest = EnableServices projectId \<lparr>serviceIds = REQUIRED_GCP_SERVICES\<rparr>
                              requested # evs
                     \<and> list_all isPoll evs
                     \<and> (isl requested \<longrightarrow> evs = [])))"
    by (rule configureProject_order)
next
  fix w' assume ok: "configureProject env projectId billingAccountId w = Some (Inr (), w')"
  let ?data = "billingData projectId billingAccountId"
  obtain r p1 where u: "api_updateProjectBillingInfo env projectId ?data (provider w) = (r, p1)"
    by (cases "api_updateProjectBillingInfo env projectId ?data (provider w)")
  let ?w1 = "\<lparr>provider = p1, trace = trace w @ [UpdateProjectBillingInfo projectId ?data r]\<rparr>"
  have pu: "perform (api_updateProjectBillingInfo env projectId ?data)
      (UpdateProjectBillingInfo projectId ?data) w = (r, ?w1)"
    using u by (simp add: perform_def)
  from ok pu obtain billing where r: "r = Inr billing"
    by (cases r) (auto simp: configureProject_def billingData_def)
  let ?services = "\<lparr>serviceIds = REQUIRED_GCP_SERVICES\<rparr>"
  obtain r2 p2 where e: "api_enableServices env projectId ?services p1 = (r2, p2)"
    by (cases "api_enableServices env projectId ?services p1")
  let ?w2 = "\<lparr>provider = p2, trace = trace ?w1 @ [EnableServices projectId ?services r2]\<rparr>"
  have pe: "perform (api_enableServices env projectId ?services)
      (EnableServices projectId ?services) ?w1 = (r2, ?w2)"
    using e by (simp add: perform_def)
  from ok pu r pe obtain response where r2: "r2 = Inr response"
    by (cases r2) (auto simp: configureProject_def billingData_def)
  from ok pu r pe r2 obtain res where
    loop: "enableServicesLoop env (op_name response) None ?w2 = Some (Inr res, w')"
    by (auto simp: configureProject_def billingData_def
        split: option.splits sum.splits prod.splits if_splits)
  from enableServicesLoop_shape [OF loop] obtain ops where d: "done_of res"
    and t: "trace w' = trace ?w2 @ polls (op_name response) ops"
    and ne: "ops \<noteq> []" and l: "res = Some (last ops)"
    and b: "\<forall>x\<in>set (butlast ops). \<not> op_done x"
    by auto
  from ne have split: "ops = butlast ops @ [last ops]" by simp
  have "trace w' = trace w @
            [UpdateProjectBillingInfo projectId ?data (Inr billing),
             EnableServices projectId ?services (Inr response)]
            @ polls (op_name response) (butlast ops @ [last ops])"
    using t r r2 split by simp
  moreover have "op_done (last ops)" using d l by (simp add: done_of_def)
  ultimately show "\<exists>billing response ops operation.
          trace w' = trace w @
            [UpdateProjectBillingInfo projectId ?data (Inr billing),
             EnableServices projectId ?services (Inr response)]
            @ polls (op_name response) (ops @ [operation])
          \<and> (\<forall>x\<in>set ops. \<not> op_done x) \<and> op_done operation"
    using b by blast
next
  fix e p'
  assume "api_updateProjectBillingInfo env projectId
                (billingData projectId billingAccountId) (provider w) = (Inl e, p')"
  then show "configureProject env projectId billingAccountId w =
          Some (Inl e, \<lparr>provider = p', trace = trace w @
            [UpdateProjectBillingInfo projectId (billingData projectId billingAccountId)
               (Inl e)]\<rparr>)"
    by (simp add: configureProject_def billingData_def perform_def)
next
  show "repairProject env projectId billingAccountId w =
       configureProject env projectId billingAccountId w"
    by (simp add: repairProject_def)
qed

theorem configureProject_sequence_witness:
  "(\<exists>w' billing response ops operation.
      configureProject cloud_env ''proj-1'' ''BILL-1'' (start slow_faulty_cloud)
        = Some (Inr (), w')
      \<and> trace w' =
          [UpdateProjectBillingInfo ''proj-1'' (billingData ''proj-1'' ''BILL-1'') (Inr billing),
           EnableServices ''proj-1'' \<lparr>serviceIds = REQUIRED_GCP_SERVICES\<rparr> (Inr response)]
          @ polls (op_name response) (ops @ [operation])
      \<and> list_all (\<lambda>x. \<not> op_done x) ops \<and> op_done operation)
   \<and> configureProject unbilled_env ''proj-1'' ''BILL-1'' (start fresh_cloud) =
       Some (Inl (ApiError ''403''),
         \<lparr>provider = fresh_cloud,
          trace = [UpdateProjectBillingInfo ''proj-1'' (billingData ''proj-1'' ''BILL-1'')
                     (Inl (ApiError ''403''))]\<rparr>)"
proof -
  let ?pending = "\<lparr>op_name = ''operations/es'', op_done = False, op_error = None,
    op_targetId = []\<rparr>"
  have update: "api_updateProjectBillingInfo cloud_env ''proj-1''
      (billingData ''proj-1'' ''BILL-1'') (provider (start slow_faulty_cloud))
      = (Inr \<lparr>billingEnabled = True\<rparr>, slow_faulty_cloud\<lparr>cloud_billing := True\<rparr>)"
    by (simp add: cloud_env_def start_def)
  have enable: "api_enableServices cloud_env ''proj-1'' \<lparr>serviceIds = REQUIRED_GCP_SERVICES\<rparr>
      (slow_faulty_cloud\<lparr>cloud_billing := True\<rparr>)
      = (Inr (started ''operations/es'' ''proj-1''),
         slow_faulty_cloud\<lparr>cloud_billing := True,
           cloud_services := [''compute.googleapis.com'']\<rparr>)"
    by (simp add: cloud_env_def slow_faulty_cloud_def fresh_cloud_def REQUIRED_GCP_SERVICES_def)
  have polled: "answered cloud_env (op_name (started ''operations/es'' ''proj-1''))
      ([?pending, ?pending] @
       [\<lparr>op_name = ''operations/es'', op_done = True,
         op_error = Some [''PERMISSION_DENIED''], op_targetId = []\<rparr>])
      (slow_faulty_cloud\<lparr>cloud_billing := True, cloud_services := [''compute.googleapis.com'']\<rparr>)
      (slow_faulty_cloud\<lparr>cloud_billing := True,
             cloud_services := [''compute.googleapis.com''], cloud_pending := 0\<rparr>)"
    by (simp add: cloud_env_def slow_faulty_cloud_def fresh_cloud_def started_def poll_def)
  have pending: "\<forall>x\<in>set [?pending, ?pending]. \<not> op_done x" by simp
  have "op_done \<lparr>op_name = ''operations/es'', op_done = True,
         op_error = Some [''PERMISSION_DENIED''], op_targetId = []\<rparr>" by simp
  note run = configureProject_answered [OF update enable polled pending this]
  note seq = configureProject_sequence [of cloud_env "''proj-1''" "''BILL-1''"
      "start slow_faulty_cloud"]
  from seq run have "\<exists>w' billing response ops operation.
      configureProject cloud_env ''proj-1'' ''BILL-1'' (start slow_faulty_cloud)
        = Some (Inr (), w')
      \<and> trace w' = trace (start slow_faulty_cloud) @
          [UpdateProjectBillingInfo ''proj-1'' (billingData ''proj-1'' ''BILL-1'') (Inr billing),
           EnableServices ''proj-1'' \<lparr>serviceIds = REQUIRED_GCP_SERVICES\<rparr> (Inr response)]
          @ polls (op_name response) (ops @ [operation])
      \<and> (\<forall>x\<in>set ops. \<not> op_done x) \<and> op_done operation"
    by blast
  then have first: "\<exists>w' billing response ops operation.
      configureProject cloud_env ''proj-1'' ''BILL-1'' (start slow_faulty_cloud)
        = Some (Inr (), w')
      \<and> trace w' =
          [UpdateProjectBillingInfo ''proj-1'' (billingData ''proj-1'' ''BILL-1'') (Inr billing),
           EnableServices ''proj-1'' \<lparr>serviceIds = REQUIRED_GCP_SERVICES\<rparr> (Inr response)]
          @ polls (op_name response) (ops @ [operation])
      \<and> list_all (\<lambda>x. \<not> op_done x) ops \<and> op_done operation"
    by (simp add: start_def list_all_iff)
  have "api_updateProjectBillingInfo unbilled_env ''proj-1''
      (billingData ''proj-1'' ''BILL-1'') (provider (start fresh_cloud))
      = (Inl (ApiError ''403''), fresh_cloud)"
    by (simp add: unbilled_env_def start_def)
  with configureProject_sequence [of unbilled_env "''proj-1''" "''BILL-1''" "start fresh_cloud"]
  have "configureProject unbilled_env ''proj-1'' ''BILL-1'' (start fresh_cloud) =
       Some (Inl (ApiError ''403''),
         \<lparr>provider = fresh_cloud,
          trace = trace (start fresh_cloud) @
                  [UpdateProjectBillingInfo ''proj-1'' (billingData ''proj-1'' ''BILL-1'')
                     (Inl (ApiError ''403''))]\<rparr>)"
    by blast
  with first show ?thesis by (simp add: start_def)
qed

text \<open>
  C10. When the billing link and the enablement request are answered and the polls end
  with an operation that is done, \<^verbatim>\<open>configureProject\<close> returns normally right after
  that answer, whatever the error fields of the polled operations and of the first
  response hold.
\<close>

theorem configureProject_ignores_operation_error:
  assumes "api_updateProjectBillingInfo env projectId
        (billingData projectId billingAccountId) (provider w) = (Inr billing, p1)"
    and "api_enableServices env projectId \<lparr>serviceIds = REQUIRED_GCP_SERVICES\<rparr> p1
        = (Inr response, p2)"
    and "answered env (op_name response) (ops @ [terminal]) p2 p3"
    and "\<forall>x\<in>set ops. \<not> op_done x"
    and "op_done terminal"
  shows "\<exists>events.
           configureProject env projectId billingAccountId w =
             Some (Inr (),
               \<lparr>provider = p3,
                trace = events @
                  [ServiceUsageOperationGet (op_name response) (Inr terminal)]\<rparr>)"
  unfolding configureProject_answered [OF assms]
  by (simp add: polls_def)

theorem configureProject_ignores_operation_error_witness:
  "\<exists>events.
     configureProject cloud_env ''proj-1'' ''BILL-1'' (start slow_faulty_cloud) =
       Some (Inr (),
         \<lparr>provider = slow_faulty_cloud\<lparr>cloud_billing := True,
             cloud_services := [''compute.googleapis.com''], cloud_pending := 0\<rparr>,
          trace = events @
            [ServiceUsageOperationGet ''operations/es''
               (Inr \<lparr>op_name = ''operations/es'', op_done = True,
                     op_error = Some [''PERMISSION_DENIED''], op_targetId = []\<rparr>)]\<rparr>)"
proof -
  let ?pending = "\<lparr>op_name = ''operations/es'', op_done = False, op_error = None,
    op_targetId = []\<rparr>"
  have update: "api_updateProjectBillingInfo cloud_env ''proj-1''
      (billingData ''proj-1'' ''BILL-1'') (provider (start slow_faulty_cloud))
      = (Inr \<lparr>billingEnabled = True\<rparr>, slow_faulty_cloud\<lparr>cloud_billing := True\<rparr>)"
    by (simp add: cloud_env_def start_def)
  have enable: "api_enableServices cloud_env ''proj-1'' \<lparr>serviceIds = REQUIRED_GCP_SERVICES\<rparr>
      (slow_faulty_cloud\<lparr>cloud_billing := True\<rparr>)
      = (Inr (started ''operations/es'' ''proj-1''),
         slow_faulty_cloud\<lparr>cloud_billing := True,
           cloud_services := [''compute.googleapis.com'']\<rparr>)"
    by (simp add: cloud_env_def slow_faulty_cloud_def fresh_cloud_def REQUIRED_GCP_SERVICES_def)
  have polled: "answered cloud_env (op_name (started ''operations/es'' ''proj-1''))
      ([?pending, ?pending] @
       [\<lparr>op_name = ''operations/es'', op_done = True,
         op_error = Some [''PERMISSION_DENIED''], op_targetId = []\<rparr>])
      (slow_faulty_cloud\<lparr>cloud_billing := True, cloud_services := [''compute.googleapis.com'']\<rparr>)
      (slow_faulty_cloud\<lparr>cloud_billing := True,
             cloud_services := [''compute.googleapis.com''], cloud_pending := 0\<rparr>)"
    by (simp add: cloud_env_def slow_faulty_cloud_def fresh_cloud_def started_def poll_def)
  have pending: "\<forall>x\<in>set [?pending, ?pending]. \<not> op_done x" by simp
  from configureProject_ignores_operation_error [OF update enable polled pending]
  show ?thesis by (simp add: started_def)
qed

text \<open>
  C6. Against a provider whose operations are done at the first poll,
  \<^verbatim>\<open>createProject\<close> returns the project with the given id and the name
  \<^verbatim>\<open>Outline servers\<close>, after one billing link and one enablement request.
\<close>

theorem createProject_scenario:
  assumes create: "api_createProject env projectId
        \<lparr>cp_projectId = projectId, cp_name = OUTLINE_PROJECT_NAME,
         cp_labels = [(''outline'', ''true'')]\<rparr> p0 = (Inr created, p1)"
    and creation: "api_resourceManagerOperationGet env (op_name created) (sleep_for env 2000 p1)
        = (Inr finished, p2)"
    and finished: "op_done finished"
    and update: "api_updateProjectBillingInfo env projectId
        (billingData projectId billingAccountId) p2 = (Inr billing, p3)"
    and enable: "api_enableServices env projectId \<lparr>serviceIds = REQUIRED_GCP_SERVICES\<rparr> p3
        = (Inr response, p4)"
    and enablement: "api_serviceUsageOperationGet env (op_name response) (sleep_for env 2000 p4)
        = (Inr enabled, p5)"
    and enabled: "op_done enabled"
  shows "\<exists>w'. createProject env projectId billingAccountId (start p0) =
           Some (Inr \<lparr>project_id = projectId, project_name = ''Outline servers''\<rparr>, w')
         \<and> provider w' = p5
         \<and> trace w' =
             [CreateProject projectId
                \<lparr>cp_projectId = projectId, cp_name = OUTLINE_PROJECT_NAME,
                 cp_labels = [(''outline'', ''true'')]\<rparr> (Inr created),
              Sleep 2000,
              ResourceManagerOperationGet (op_name created) (Inr finished),
              UpdateProjectBillingInfo projectId (billingData projectId billingAccountId)
                (Inr billing),
              EnableServices projectId \<lparr>serviceIds = REQUIRED_GCP_SERVICES\<rparr> (Inr response),
              Sleep 2000,
              ServiceUsageOperationGet (op_name response) (Inr enabled)]
         \<and> length (filter isBillingLink (trace w')) = 1
         \<and> length (filter isServiceEnablement (trace w')) = 1"
proof -
  let ?w1 = "\<lparr>provider = p1, trace = [CreateProject projectId
                \<lparr>cp_projectId = projectId, cp_name = OUTLINE_PROJECT_NAME,
                 cp_labels = [(''outline'', ''true'')]\<rparr> (Inr created)]\<rparr>"
  note loop1 = createProjectLoop_immediate [OF creation finished, of "trace ?w1"]
  have polled: "answered env (op_name response) ([] @ [enabled]) p4 p5"
    using enablement by simp
  have update': "api_updateProjectBillingInfo env projectId
        (billingData projectId billingAccountId)
        (provider \<lparr>provider = p2, trace = trace ?w1 @ [Sleep 2000,
            ResourceManagerOperationGet (op_name created) (Inr finished)]\<rparr>) = (Inr billing, p3)"
    using update by simp
  note conf = configureProject_answered [OF update' enable polled _ enabled]
  show ?thesis
    using create loop1 conf
    by (simp add: createProject_def start_def perform_def polls_def OUTLINE_PROJECT_NAME_def
        isBillingLink_def isServiceEnablement_def)
qed

theorem createProject_scenario_witness:
  "\<exists>w'. createProject cloud_env ''proj-1'' ''BILL-1'' (start healthy_cloud) =
           Some (Inr \<lparr>project_id = ''proj-1'', project_name = ''Outline servers''\<rparr>, w')
         \<and> length (filter isBillingLink (trace w')) = 1
         \<and> length (filter isServiceEnablement (trace w')) = 1"
proof -
  have create: "api_createProject cloud_env ''proj-1''
        \<lparr>cp_projectId = ''proj-1'', cp_name = OUTLINE_PROJECT_NAME,
         cp_labels = [(''outline'', ''true'')]\<rparr> healthy_cloud
        = (Inr (started ''operations/cp'' ''proj-1''), healthy_cloud)"
    by (simp add: cloud_env_def)
  have creation: "api_resourceManagerOperationGet cloud_env
        (op_name (started ''operations/cp'' ''proj-1'')) (sleep_for cloud_env 2000 healthy_cloud)
        = (Inr \<lparr>op_name = ''operations/cp'', op_done = True, op_error = None,
                 op_targetId = []\<rparr>, healthy_cloud)"
    by (simp add: cloud_env_def poll_def healthy_cloud_def fresh_cloud_def started_def)
  have update: "api_updateProjectBillingInfo cloud_env ''proj-1''
        (billingData ''proj-1'' ''BILL-1'') healthy_cloud
        = (Inr \<lparr>billingEnabled = True\<rparr>, healthy_cloud\<lparr>cloud_billing := True\<rparr>)"
    by (simp add: cloud_env_def)
  have enable: "api_enableServices cloud_env ''proj-1'' \<lparr>serviceIds = REQUIRED_GCP_SERVICES\<rparr>
        (healthy_cloud\<lparr>cloud_billing := True\<rparr>)
        = (Inr (started ''operations/es'' ''proj-1''),
           healthy_cloud\<lparr>cloud_billing := True,
             cloud_services := cloud_services healthy_cloud @ REQUIRED_GCP_SERVICES\<rparr>)"
    by (simp add: cloud_env_def)
  have enablement: "api_serviceUsageOperationGet cloud_env
        (op_name (started ''operations/es'' ''proj-1''))
        (sleep_for cloud_env 2000 (healthy_cloud\<lparr>cloud_billing := True,
             cloud_services := cloud_services healthy_cloud @ REQUIRED_GCP_SERVICES\<rparr>))
        = (Inr \<lparr>op_name = ''operations/es'', op_done = True, op_error = None,
                 op_targetId = []\<rparr>,
           healthy_cloud\<lparr>cloud_billing := True,
             cloud_services := cloud_services healthy_cloud @ REQUIRED_GCP_SERVICES\<rparr>)"
    by (simp add: cloud_env_def poll_def healthy_cloud_def fresh_cloud_def started_def)
  from createProject_scenario [OF create creation _ update enable enablement]
  show ?thesis by auto
qed

section \<open>promoteEphemeralIpIfNeeded\<close>

text \<open>
  C9. For an instance whose first network interface has a first access configuration
  with an address, \<^verbatim>\<open>promoteEphemeralIpIfNeeded\<close> fetches the instance and then sends
  one request for a static address, whose address is the one read; it settles as that
  request is answered.
\<close>

theorem promoteEphemeralIpIfNeeded_static_ip:
  assumes "api_getInstance env loc (provider w) = (Inr instance, p1)"
    and "networkInterfaces instance = networkInterface # others"
    and "accessConfigs networkInterface = accessConfig # furtherConfigs"
    and "natIP accessConfig = Some ip"
    and "api_createStaticIp env (loc_projectId loc) (getRegionId env (loc_zoneId loc))
           \<lparr>sip_name = instance_name instance, sip_description = instance_description instance,
            sip_address = Some ip\<rparr> p1 = (answer, p2)"
  shows "run_task env (promoteEphemeralIpIfNeeded env loc) w =
           (case answer of Inl e \<Rightarrow> Inl e | Inr operation \<Rightarrow> Inr (),
            \<lparr>provider = p2,
             trace = trace w @
               [GetInstance loc (Inr instance),
                CreateStaticIp (loc_projectId loc) (getRegionId env (loc_zoneId loc))
                  \<lparr>sip_name = instance_name instance,
                   sip_description = instance_description instance,
                   sip_address = Some ip\<rparr> answer]\<rparr>)"
  using assms
  by (simp add: promoteEphemeralIpIfNeeded_def perform_def split: sum.splits)

theorem promoteEphemeralIpIfNeeded_static_ip_witness:
  "run_task cloud_env
     (promoteEphemeralIpIfNeeded cloud_env
        \<lparr>loc_projectId = ''proj-1'', loc_zoneId = ''us-central1-a'', loc_instanceId = ''4242''\<rparr>)
     (start fresh_cloud) =
   (Inr (),
    \<lparr>provider = fresh_cloud\<lparr>cloud_addresses := [Some ''203.0.113.7'']\<rparr>,
     trace =
       [GetInstance
          \<lparr>loc_projectId = ''proj-1'', loc_zoneId = ''us-central1-a'', loc_instanceId = ''4242''\<rparr>
          (Inr \<lparr>instance_name = ''outline-1'', instance_description = ''relay'',
                networkInterfaces = [\<lparr>accessConfigs = [\<lparr>natIP = Some ''203.0.113.7''\<rparr>]\<rparr>]\<rparr>),
        CreateStaticIp ''proj-1'' ''us-central1''
          \<lparr>sip_name = ''outline-1'', sip_description = ''relay'',
           sip_address = Some ''203.0.113.7''\<rparr>
          (Inr \<lparr>op_name = ''operation-ip'', op_done = True, op_error = None,
                op_targetId = []\<rparr>)]\<rparr>)"
proof -
  let ?loc = "\<lparr>loc_projectId = ''proj-1'', loc_zoneId = ''us-central1-a'',
    loc_instanceId = ''4242''\<rparr>"
  let ?instance = "\<lparr>instance_name = ''outline-1'', instance_description = ''relay'',
    networkInterfaces = [\<lparr>accessConfigs = [\<lparr>natIP = Some ''203.0.113.7''\<rparr>]\<rparr>]\<rparr>"
  have get: "api_getInstance cloud_env ?loc (provider (start fresh_cloud))
      = (Inr ?instance, fresh_cloud)"
    by (simp add: cloud_env_def start_def)
  have ni: "networkInterfaces ?instance = \<lparr>accessConfigs = [\<lparr>natIP = Some ''203.0.113.7''\<rparr>]\<rparr> # []"
    by simp
  have ac: "accessConfigs \<lparr>accessConfigs = [\<lparr>natIP = Some ''203.0.113.7''\<rparr>]\<rparr>
      = \<lparr>natIP = Some ''203.0.113.7''\<rparr> # []"
    by simp
  have ip: "natIP \<lparr>natIP = Some ''203.0.113.7''\<rparr> = Some ''203.0.113.7''" by simp
  have static: "api_createStaticIp cloud_env (loc_projectId ?loc)
      (getRegionId cloud_env (loc_zoneId ?loc))
      \<lparr>sip_name = instance_name ?instance, sip_description = instance_description ?instance,
       sip_address = Some ''203.0.113.7''\<rparr> fresh_cloud
      = (Inr \<lparr>op_name = ''operation-ip'', op_done = True, op_error = None, op_targetId = []\<rparr>,
         fresh_cloud\<lparr>cloud_addresses := [Some ''203.0.113.7'']\<rparr>)"
    by (simp add: cloud_env_def fresh_cloud_def)
  from promoteEphemeralIpIfNeeded_static_ip [OF get ni ac ip static]
  show ?thesis by (simp add: start_def cloud_env_def)
qed

section \<open>createFirewallIfNeeded\<close>

lemma createFirewallIfNeeded_existing:
  assumes "api_listFirewalls env projectId OUTLINE_FIREWALL_NAME (provider w) = (Inr response, p')"
    and "\<not> noFirewall response"
  shows "run_task env (createFirewallIfNeeded projectId) w =
           (Inr (), \<lparr>provider = p',
              trace = trace w @ [ListFirewalls projectId OUTLINE_FIREWALL_NAME (Inr response)]\<rparr>)"
  using assms
  by (auto simp: createFirewallIfNeeded_def perform_def noFirewall_def split: option.splits)

lemma createFirewallIfNeeded_absent:
  assumes "api_listFirewalls env projectId OUTLINE_FIREWALL_NAME (provider w) = (Inr response, p1)"
    and "noFirewall response"
    and "api_createFirewall env projectId outlineFirewallData p1 = (answer, p2)"
  shows "run_task env (createFirewallIfNeeded projectId) w =
           (case answer of Inl e \<Rightarrow> Inl e | Inr operation \<Rightarrow> Inr (),
            \<lparr>provider = p2,
              trace = trace w @ [ListFirewalls projectId OUTLINE_FIREWALL_NAME (Inr response),
                CreateFirewall projectId outlineFirewallData answer]\<rparr>)"
  using assms
  by (auto simp: createFirewallIfNeeded_def perform_def noFirewall_def outlineFirewallData_def
      split: option.splits sum.splits)

text \<open>
  C5. When the list query reports a rule, \<^verbatim>\<open>createFirewallIfNeeded\<close> calls nothing
  else. So against a provider that lists a rule once it is created, the second of two
  calls is the list query alone, and the two calls together create the rule once.
\<close>

theorem createFirewallIfNeeded_idempotent:
  "(\<forall>response p'.
      api_listFirewalls env projectId OUTLINE_FIREWALL_NAME (provider w) = (Inr response, p')
      \<and> \<not> noFirewall response \<longrightarrow>
      run_task env (createFirewallIfNeeded projectId) w =
        (Inr (), \<lparr>provider = p',
           trace = trace w @ [ListFirewalls projectId OUTLINE_FIREWALL_NAME (Inr response)]\<rparr>))
   \<and> (\<forall>absent p1 operation p2 present p3.
        api_listFirewalls env projectId OUTLINE_FIREWALL_NAME (provider w) = (Inr absent, p1)
        \<and> noFirewall absent
        \<and> api_createFirewall env projectId outlineFirewallData p1 = (Inr operation, p2)
        \<and> api_listFirewalls env projectId OUTLINE_FIREWALL_NAME p2 = (Inr present, p3)
        \<and> \<not> noFirewall present \<longrightarrow>
        run_task env (createFirewallIfNeeded projectId)
          (snd (run_task env (createFirewallIfNeeded projectId) w)) =
          (Inr (), \<lparr>provider = p3,
             trace = trace w @
               [ListFirewalls projectId OUTLINE_FIREWALL_NAME (Inr absent),
                CreateFirewall projectId outlineFirewallData (Inr operation),
                ListFirewalls projectId OUTLINE_FIREWALL_NAME (Inr present)]\<rparr>))"
proof (intro conjI allI impI)
  fix response p'
  assume "api_listFirewalls env projectId OUTLINE_FIREWALL_NAME (provider w) = (Inr response, p')
      \<and> \<not> noFirewall response"
  then show "run_task env (createFirewallIfNeeded projectId) w =
        (Inr (), \<lparr>provider = p',
           trace = trace w @ [ListFirewalls projectId OUTLINE_FIREWALL_NAME (Inr response)]\<rparr>)"
    using createFirewallIfNeeded_existing [of env projectId w response p'] by simp
next
  fix absent p1 operation p2 present p3
  assume a: "api_listFirewalls env projectId OUTLINE_FIREWALL_NAME (provider w) = (Inr absent, p1)
        \<and> noFirewall absent
        \<and> api_createFirewall env projectId outlineFirewallData p1 = (Inr operation, p2)
        \<and> api_listFirewalls env projectId OUTLINE_FIREWALL_NAME p2 = (Inr present, p3)
        \<and> \<not> noFirewall present"
  then have first: "run_task env (createFirewallIfNeeded projectId) w =
      (Inr (), \<lparr>provider = p2,
          trace = trace w @ [ListFirewalls projectId OUTLINE_FIREWALL_NAME (Inr absent),
                CreateFirewall projectId outlineFirewallData (Inr operation)]\<rparr>)"
    using createFirewallIfNeeded_absent [of env projectId w absent p1 "Inr operation" p2]
    by simp
  from a have "api_listFirewalls env projectId OUTLINE_FIREWALL_NAME
      (provider \<lparr>provider = p2,
          trace = trace w @ [ListFirewalls projectId OUTLINE_FIREWALL_NAME (Inr absent),
                CreateFirewall projectId outlineFirewallData (Inr operation)]\<rparr>) = (Inr present, p3)"
    by simp
  from createFirewallIfNeeded_existing [OF this] a first
  show "run_task env (createFirewallIfNeeded projectId)
          (snd (run_task env (createFirewallIfNeeded projectId) w)) =
          (Inr (), \<lparr>provider = p3,
             trace = trace w @
               [ListFirewalls projectId OUTLINE_FIREWALL_NAME (Inr absent),
                CreateFirewall projectId outlineFirewallData (Inr operation),
                ListFirewalls projectId OUTLINE_FIREWALL_NAME (Inr present)]\<rparr>)"
    by simp
qed

theorem createFirewallIfNeeded_idempotent_witness:
  "run_task cloud_env (createFirewallIfNeeded ''proj-1'')
     (snd (run_task cloud_env (createFirewallIfNeeded ''proj-1'') (start fresh_cloud))) =
   (Inr (),
    \<lparr>provider = fresh_cloud\<lparr>cloud_firewalls := [''outline'']\<rparr>,
     trace =
       [ListFirewalls ''proj-1'' ''outline'' (Inr (Some \<lparr>firewalls_items = None\<rparr>)),
        CreateFirewall ''proj-1'' outlineFirewallData
          (Inr \<lparr>op_name = ''operation-fw'', op_done = True, op_error = None,
                op_targetId = []\<rparr>),
        ListFirewalls ''proj-1'' ''outline''
          (Inr (Some \<lparr>firewalls_items = Some [\<lparr>firewall_name = ''outline''\<rparr>]\<rparr>))]\<rparr>)
   \<and> run_task cloud_env (createFirewallIfNeeded ''proj-1'')
       (start (fresh_cloud\<lparr>cloud_firewalls := [''outline'']\<rparr>)) =
     (Inr (),
      \<lparr>provider = fresh_cloud\<lparr>cloud_firewalls := [''outline'']\<rparr>,
       trace =
         [ListFirewalls ''proj-1'' ''outline''
            (Inr (Some \<lparr>firewalls_items = Some [\<lparr>firewall_name = ''outline''\<rparr>]\<rparr>))]\<rparr>)"
proof -
  let ?one = "fresh_cloud\<lparr>cloud_firewalls := [''outline'']\<rparr>"
  let ?present = "Some \<lparr>firewalls_items = Some [\<lparr>firewall_name = ''outline''\<rparr>]\<rparr>"
  have l1: "api_listFirewalls cloud_env ''proj-1'' OUTLINE_FIREWALL_NAME
      (provider (start fresh_cloud)) = (Inr (Some \<lparr>firewalls_items = None\<rparr>), fresh_cloud)"
    by (simp add: cloud_env_def start_def fresh_cloud_def)
  have n1: "noFirewall (Some \<lparr>firewalls_items = None\<rparr>)" by (simp add: noFirewall_def)
  have c: "api_createFirewall cloud_env ''proj-1'' outlineFirewallData fresh_cloud
      = (Inr \<lparr>op_name = ''operation-fw'', op_done = True, op_error = None, op_targetId = []\<rparr>,
         ?one)"
    by (simp add: cloud_env_def fresh_cloud_def outlineFirewallData_def OUTLINE_FIREWALL_NAME_def)
  have l2: "api_listFirewalls cloud_env ''proj-1'' OUTLINE_FIREWALL_NAME ?one
      = (Inr ?present, ?one)"
    by (simp add: cloud_env_def fresh_cloud_def OUTLINE_FIREWALL_NAME_def)
  have n2: "\<not> noFirewall ?present" by (simp add: noFirewall_def)
  have l3: "api_listFirewalls cloud_env ''proj-1'' OUTLINE_FIREWALL_NAME
      (provider (start ?one)) = (Inr ?present, ?one)"
    by (simp add: cloud_env_def fresh_cloud_def OUTLINE_FIREWALL_NAME_def start_def)
  note idem = createFirewallIfNeeded_idempotent
  from idem [of cloud_env "''proj-1''" "start fresh_cloud"] l1 n1 c l2 n2
  have "run_task cloud_env (createFirewallIfNeeded ''proj-1'')
     (snd (run_task cloud_env (createFirewallIfNeeded ''proj-1'') (start fresh_cloud))) =
   (Inr (),
    \<lparr>provider = ?one,
     trace = trace (start fresh_cloud) @
       [ListFirewalls ''proj-1'' OUTLINE_FIREWALL_NAME (Inr (Some \<lparr>firewalls_items = None\<rparr>)),
        CreateFirewall ''proj-1'' outlineFirewallData
          (Inr \<lparr>op_name = ''operation-fw'', op_done = True, op_error = None,
                op_targetId = []\<rparr>),
        ListFirewalls ''proj-1'' OUTLINE_FIREWALL_NAME (Inr ?present)]\<rparr>)"
    by blast
  moreover from idem [of cloud_env "''proj-1''" "start ?one"] l3 n2
  have "run_task cloud_env (createFirewallIfNeeded ''proj-1'') (start ?one) =
     (Inr (),
      \<lparr>provider = ?one,
       trace = trace (start ?one) @
         [ListFirewalls ''proj-1'' OUTLINE_FIREWALL_NAME (Inr ?present)]\<rparr>)"
    by blast
  ultimately show ?thesis by (simp add: start_def OUTLINE_FIREWALL_NAME_def)
qed

section \<open>createInstance and createServer\<close>

lemmas cloud_run =
  createServer_def createInstance_def perform_def cloud_env_def start_def started_def
  promise_all_def join_def createFirewallIfNeeded_def promoteEphemeralIpIfNeeded_def
  advance_def settled_def resume_def Let_def

text \<open>
  C1, as stated, fails: the provider answers the creation request with an operation
  that is not done, and the handle is returned although no answer so far reports the
  operation as done.
\<close>

theorem createInstance_returns_before_done:
  "\<not> isl (fst (createInstance cloud_env march_5 ''proj-1'' ''relay'' ''us-central1-a''
             (start fresh_cloud)))
   \<and> \<not> creationDone (trace (snd (createInstance cloud_env march_5 ''proj-1'' ''relay''
             ''us-central1-a'' (start fresh_cloud))))
   \<and> \<not> isl (fst (createServer cloud_env ''account-1'' march_5 ''proj-1'' ''relay''
             ''us-central1-a'' (start fresh_cloud)))
   \<and> \<not> creationDone (trace (snd (createServer cloud_env ''account-1'' march_5 ''proj-1''
             ''relay'' ''us-central1-a'' (start fresh_cloud))))"
  by (simp add: cloud_run creationDone_def reportsCreationDone_def)

text \<open>
  C1, amended. \<^verbatim>\<open>createInstance\<close> sends one creation request. When it is rejected the
  call is rejected; when it is answered with an operation, done or not, the handle is
  returned at once. Its completion joins two tasks that still wait for their first
  answer: the wait for the operation, which continues with
  \<^verbatim>\<open>promoteEphemeralIpIfNeeded\<close> at the locator of the new instance, and
  \<^verbatim>\<open>createFirewallIfNeeded\<close> for the project; the completion is not settled.
  \<^verbatim>\<open>createServer\<close> wraps the same handle.
\<close>

theorem createInstance_returns_on_answer:
  "\<exists>data answer.
     answer = fst (api_createInstance env projectId zoneId data (provider w))
     \<and> ci_name data = makeInstanceName now
     \<and> snd (createInstance env now projectId description zoneId w) =
         \<lparr>provider = snd (api_createInstance env projectId zoneId data (provider w)),
          trace = trace w @ [CreateInstance projectId zoneId data answer]\<rparr>
     \<and> snd (createServer env accountId now projectId description zoneId w) =
         snd (createInstance env now projectId description zoneId w)
     \<and> (case answer of
           Inl e \<Rightarrow>
             fst (createInstance env now projectId description zoneId w) = Inl e
             \<and> fst (createServer env accountId now projectId description zoneId w) = Inl e
         | Inr operation \<Rightarrow>
             (\<exists>handle.
                fst (createInstance env now projectId description zoneId w) = Inr handle
                \<and> ih_instanceId handle = op_targetId operation
                \<and> ih_name handle = makeInstanceName now
                \<and> ipPromotion (ih_completion handle) =
                    AwaitZoneWait projectId zoneId (op_name operation)
                      (\<lambda>waited. promoteEphemeralIpIfNeeded env
                         \<lparr>loc_projectId = projectId, loc_zoneId = zoneId,
                          loc_instanceId = op_targetId operation\<rparr>)
                \<and> firewallSetup (ih_completion handle) = createFirewallIfNeeded projectId
                \<and> \<not> settled (ipPromotion (ih_completion handle))
                \<and> \<not> settled (firewallSetup (ih_completion handle))
                \<and> outcome (ih_completion handle) = None
                \<and> fst (createServer env accountId now projectId description zoneId w) =
                    Inr \<lparr>server_accountId = accountId,
                         server_locator =
                           \<lparr>loc_projectId = projectId, loc_zoneId = zoneId,
                            loc_instanceId = op_targetId operation\<rparr>,
                         server_name = makeInstanceName now,
                         server_completion = ih_completion handle\<rparr>))"
  apply (rule exI [of _ "\<lparr>ci_name = makeInstanceName now,
             ci_description = description,
             ci_machineType = ''zones/'' @ zoneId @ ''/machineTypes/'' @ MACHINE_SIZE,
             ci_disks =
               [\<lparr>disk_boot = True,
                 disk_sourceImage =
                   ''projects/ubuntu-os-cloud/global/images/family/ubuntu-1804-lts''\<rparr>],
             ci_networkInterfaces =
               [\<lparr>nir_network = ''global/networks/default'', nir_accessConfigs = 1\<rparr>],
             ci_labels = [(''outline'', ''true'')],
             ci_tags = [OUTLINE_FIREWALL_TAG],
             ci_metadata =
               [(''enable-guest-attributes'', ''TRUE''), (''user-data'', getInstallScript env)]\<rparr>"])
  apply (simp add: createServer_def createInstance_def perform_def promise_all_def join_def
      settled_def Let_def split: prod.splits sum.splits)
  apply (simp add: createFirewallIfNeeded_def)
  done

section \<open>The completion signal\<close>

text \<open>
  However the answers are ordered, the completion of a returned handle is fulfilled only
  once both tasks are fulfilled, and it is rejected once a task is rejected.
\<close>

lemma join_cases:
  "join moved a b =
     (case moved of Rejected e \<Rightarrow> Some (Inl e)
      | _ \<Rightarrow> if fulfilled a \<and> fulfilled b then Some (Inr ()) else None)"
  by (cases moved; cases a; cases b) (simp_all add: join_def fulfilled_def)

lemma unsettled: "\<not> settled t \<Longrightarrow> \<not> fulfilled t \<and> \<not> rejected t"
  by (cases t) (simp_all add: settled_def fulfilled_def rejected_def)

lemma outcome_cases:
  obtains "outcome c = None" | e where "outcome c = Some (Inl e)" | "outcome c = Some (Inr ())"
proof (cases "outcome c")
  case None
  then show ?thesis using that by simp
next
  case (Some r)
  then show ?thesis using that by (cases r) auto
qed

lemma joined_promise_all: "joined (promise_all a b)"
  by (cases a; cases b) (auto simp: joined_def promise_all_def join_cases fulfilled_def rejected_def)

lemma joined_moved_left:
  assumes "joined c" and waiting: "\<not> settled (ipPromotion c)"
  shows "joined \<lparr>ipPromotion = a', firewallSetup = firewallSetup c,
           outcome = (case outcome c of Some r \<Rightarrow> Some r | None \<Rightarrow> join a' a' (firewallSetup c))\<rparr>"
proof (cases rule: outcome_cases [of c])
  case 1
  with assms unsettled [OF waiting] show ?thesis
    by (cases a'; cases "firewallSetup c") (auto simp: joined_def join_cases fulfilled_def rejected_def)
next
  case (2 e)
  with assms unsettled [OF waiting] show ?thesis
    by (cases a'; cases "firewallSetup c") (auto simp: joined_def join_cases fulfilled_def rejected_def)
next
  case 3
  with assms unsettled [OF waiting] show ?thesis
    by (simp add: joined_def)
qed

lemma joined_moved_right:
  assumes "joined c" and waiting: "\<not> settled (firewallSetup c)"
  shows "joined \<lparr>ipPromotion = ipPromotion c, firewallSetup = b',
           outcome = (case outcome c of Some r \<Rightarrow> Some r | None \<Rightarrow> join b' (ipPromotion c) b')\<rparr>"
proof (cases rule: outcome_cases [of c])
  case 1
  with assms unsettled [OF waiting] show ?thesis
    by (cases b'; cases "ipPromotion c") (auto simp: joined_def join_cases fulfilled_def rejected_def)
next
  case (2 e)
  with assms unsettled [OF waiting] show ?thesis
    by (cases b'; cases "ipPromotion c") (auto simp: joined_def join_cases fulfilled_def rejected_def)
next
  case 3
  with assms unsettled [OF waiting] show ?thesis
    by (simp add: joined_def)
qed

lemma joined_advance: "joined c \<Longrightarrow> joined (fst (advance env s c w))"
  by (cases s)
    (auto simp: advance_def joined_moved_left joined_moved_right split: prod.splits)

lemma joined_run_completion:
  "joined c \<Longrightarrow> joined (fst (run_completion env schedule c w))"
proof (induction schedule arbitrary: c w)
  case Nil
  then show ?case by simp
next
  case (Cons s schedule)
  obtain c' w' where a: "advance env s c w = (c', w')" by (cases "advance env s c w")
  with joined_advance [OF Cons.prems, of env s w] have "joined c'" by simp
  from Cons.IH [OF this] a show ?case by simp
qed

lemma createInstance_completion_joined:
  assumes "createInstance env now projectId description zoneId w = (Inr handle, w1)"
  shows "joined (fst (run_completion env schedule (ih_completion handle) w1))"
proof -
  from assms have "joined (ih_completion handle)"
    by (auto simp: createInstance_def Let_def joined_promise_all split: prod.splits sum.splits)
  then show ?thesis by (rule joined_run_completion)
qed

text \<open>
  C2. The firewall creation is answered with an operation that carries errors, and no
  rule is created; the completion is fulfilled all the same, under either order of the
  answers.
\<close>

theorem completion_succeeds_despite_firewall_error:
  "(case createInstance cloud_env march_5 ''proj-1'' ''relay'' ''us-central1-a''
          (start firewall_fault_cloud) of
      (Inl e, w) \<Rightarrow> False
    | (Inr handle, w) \<Rightarrow>
        (case run_completion cloud_env
                [FirewallSetup, FirewallSetup, IpPromotion, IpPromotion, IpPromotion]
                (ih_completion handle) w of
           (c, w') \<Rightarrow>
             outcome c = Some (Inr ())
             \<and> cloud_firewalls (provider w') = []
             \<and> CreateFirewall ''proj-1'' outlineFirewallData
                  (Inr \<lparr>op_name = ''operation-fw'', op_done = True,
                        op_error = Some [''QUOTA_EXCEEDED''], op_targetId = []\<rparr>)
                \<in> set (trace w'))
        \<and> (case run_completion cloud_env
                [IpPromotion, FirewallSetup, IpPromotion, IpPromotion, FirewallSetup]
                (ih_completion handle) w of
           (c, w') \<Rightarrow>
             outcome c = Some (Inr ())
             \<and> cloud_firewalls (provider w') = []
             \<and> CreateFirewall ''proj-1'' outlineFirewallData
                  (Inr \<lparr>op_name = ''operation-fw'', op_done = True,
                        op_error = Some [''QUOTA_EXCEEDED''], op_targetId = []\<rparr>)
                \<in> set (trace w')))"
  by (simp add: cloud_run firewall_fault_cloud_def fresh_cloud_def outlineFirewallData_def
      OUTLINE_FIREWALL_NAME_def)

text \<open>A rejected call, by contrast, rejects the completion.\<close>

lemma completion_fails_on_rejected_call:
  "(case createInstance unlisted_env march_5 ''proj-1'' ''relay'' ''us-central1-a''
          (start fresh_cloud) of
      (Inl e, w) \<Rightarrow> False
    | (Inr handle, w) \<Rightarrow>
        outcome (fst (run_completion unlisted_env [IpPromotion, FirewallSetup]
                   (ih_completion handle) w)) = Some (Inl (ApiError ''503'')))"
  by (simp add: cloud_run unlisted_env_def fresh_cloud_def OUTLINE_FIREWALL_NAME_def)

end
